theory Spec2Isabelle
  imports Complex_Main "HOL-Library.Char_ord"
begin

section \<open>JavaScript values used by the application\<close>

text \<open>
  Strings are lists of 8-bit characters. An optional string stands for a JavaScript value
  that is either \<^verbatim>\<open>undefined\<close> or a string; it is truthy when it is a non-empty string.
\<close>

definition truthy :: "string option \<Rightarrow> bool" where
  "truthy v = (case v of None \<Rightarrow> False | Some s \<Rightarrow> s \<noteq> [])"

definition startsWith :: "string \<Rightarrow> string \<Rightarrow> bool" where
  "startsWith s p = (take (length p) s = p)"

text \<open>\<^verbatim>\<open>s.split(d)\<close> for a one-character separator: the result always has at least one piece.\<close>

fun split :: "char \<Rightarrow> string \<Rightarrow> string list" where
  "split d [] = [[]]"
| "split d (c # cs) =
     (if c = d then [] # split d cs
      else (case split d cs of [] \<Rightarrow> [[c]] | w # ws \<Rightarrow> (c # w) # ws))"

text \<open>\<^verbatim>\<open>xs[i]\<close>: reading past the end of an array gives \<^verbatim>\<open>undefined\<close>.\<close>

definition index :: "'a list \<Rightarrow> nat \<Rightarrow> 'a option" where
  "index xs i = (if i < length xs then Some (xs ! i) else None)"

text \<open>\<^verbatim>\<open>xs.join(sep)\<close>.\<close>

fun join :: "string \<Rightarrow> string list \<Rightarrow> string" where
  "join sep [] = []"
| "join sep [x] = x"
| "join sep (x # y # ys) = x @ sep @ join sep (y # ys)"

text \<open>\<^verbatim>\<open>s.includes(p)\<close>: the string \<open>p\<close> occurs in \<open>s\<close>.\<close>

fun string_includes :: "string \<Rightarrow> string \<Rightarrow> bool" where
  "string_includes [] p = (p = [])"
| "string_includes (c # cs) p = (if startsWith (c # cs) p then True else string_includes cs p)"

text \<open>The character classes \<^verbatim>\<open>[a-z]\<close>, \<^verbatim>\<open>[A-Z]\<close> and \<^verbatim>\<open>\d\<close> of regular expressions.\<close>

definition lower :: "char \<Rightarrow> bool" where
  "lower c = (CHR ''a'' \<le> c \<and> c \<le> CHR ''z'')"

definition upper :: "char \<Rightarrow> bool" where
  "upper c = (CHR ''A'' \<le> c \<and> c \<le> CHR ''Z'')"

definition digit :: "char \<Rightarrow> bool" where
  "digit c = (CHR ''0'' \<le> c \<and> c \<le> CHR ''9'')"

text \<open>\<^verbatim>\<open>str.toLowerCase()\<close> on the letters of ASCII.\<close>

definition toLowerCase :: "string \<Rightarrow> string" where
  "toLowerCase s =
     map (\<lambda>c. case map_of (zip ''ABCDEFGHIJKLMNOPQRSTUVWXYZ'' ''abcdefghijklmnopqrstuvwxyz'') c of
                None \<Rightarrow> c | Some l \<Rightarrow> l) s"

text \<open>An exception object, as far as the handlers look at it.\<close>

record js_error =
  err_name :: string
  err_message :: string
  err_stack :: string
  err_code :: "nat option"

text \<open>The process environment: the two variables the code reads.\<close>

record env =
  JWT_SECRET :: "string option"
  NODE_ENV :: "string option"

section \<open>Documents and collections\<close>

text \<open>
  An \<^verbatim>\<open>ObjectId\<close> is twelve bytes. It is written here by its 24 hexadecimal digits in
  lower case, which is also what its method \<^verbatim>\<open>toString()\<close> returns.
\<close>

datatype objectId = ObjectId string

fun id_toString :: "objectId \<Rightarrow> string" where
  "id_toString (ObjectId h) = h"

text \<open>
  The cast of a string to an \<^verbatim>\<open>ObjectId\<close>, which Mongoose applies to the \<^verbatim>\<open>_id\<close> of a
  query and to a path of the type \<^verbatim>\<open>ObjectId\<close>. A string of 24 hexadecimal digits of
  either case is the id with these digits. Another string of 24 characters cannot be cast,
  and the query throws a \<^verbatim>\<open>CastError\<close>. The strings that pass the validation of the
  routes have 24 characters; a string of another length is taken here as one that cannot
  be cast.
\<close>

definition hexDigit :: "char \<Rightarrow> bool" where
  "hexDigit c =
     (digit c \<or> (CHR ''a'' \<le> c \<and> c \<le> CHR ''f'') \<or> (CHR ''A'' \<le> c \<and> c \<le> CHR ''F''))"

definition castObjectId :: "string \<Rightarrow> objectId option" where
  "castObjectId s =
     (if length s = 24 \<and> list_all hexDigit s then Some (ObjectId (toLowerCase s)) else None)"

text \<open>
  A user document of \<^verbatim>\<open>models/User.js\<close> and an item document of \<^verbatim>\<open>models/Item.js\<close>.
  Dates are integer milliseconds since the epoch. The timestamps \<^verbatim>\<open>createdAt\<close> and
  \<^verbatim>\<open>updatedAt\<close> are left out. The password of a user is absent in a document read with
  \<^verbatim>\<open>select('-password')\<close>.
\<close>

record user =
  user_id :: objectId
  name :: string
  email :: string
  password :: "string option"
  role :: string
  user_isActive :: bool

record item =
  item_id :: objectId
  item_image :: string
  dateRange_start :: int
  dateRange_end :: int
  item_note :: string
  createdBy :: objectId
  updatedBy :: "objectId option"
  item_isActive :: bool

text \<open>
  The database holds the two collections, each a list of documents. The upload directory
  is the set of file names stored in it.
\<close>

record db =
  users :: "user list"
  items :: "item list"

record world =
  database :: db
  uploads :: "string set"

text \<open>
  Every call into the database may throw, and so may the removal of a file. The calls the
  handlers make are named, and a fault assignment says which of them throws, and what.
\<close>

datatype call =
  User_findById | User_findOne | User_create | User_save | User_updateMany
| Item_findOne | Item_create | Item_populate | Item_findByIdAndUpdate | Item_updateMany
| Fs_unlinkSync

type_synonym faults = "call \<Rightarrow> js_error option"

definition no_faults :: faults where
  "no_faults = (\<lambda>c. None)"

text \<open>
  \<^verbatim>\<open>User.findById(id)\<close> for an id that can be cast: the user whose \<^verbatim>\<open>_id\<close> is the cast
  id. The callers answer for an id that cannot be cast, for which the call throws.
\<close>

definition findById :: "user list \<Rightarrow> string \<Rightarrow> user option" where
  "findById us i = find (\<lambda>u. castObjectId i = Some (user_id u)) us"

definition select_no_password :: "user \<Rightarrow> user" where
  "select_no_password u = u\<lparr>password := None\<rparr>"

text \<open>
  The error of a failed cast of the string \<open>s\<close> at the path \<^verbatim>\<open>_id\<close> of the model \<open>m\<close>; of the
  stack its first line is kept.
\<close>

definition CastError :: "string \<Rightarrow> string \<Rightarrow> js_error" where
  "CastError s m =
     (let msg = ''Cast to ObjectId failed for value '' @ [CHR 0x22] @ s @ [CHR 0x22]
                @ '' (type string) at path '' @ [CHR 0x22] @ ''_id'' @ [CHR 0x22]
                @ '' for model '' @ [CHR 0x22] @ m @ [CHR 0x22]
      in \<lparr>err_name = ''CastError'', err_message = msg, err_stack = ''CastError: '' @ msg,
          err_code = None\<rparr>)"

section \<open>Responses\<close>

text \<open>
  A JSON response: the HTTP status and the fields of the body the handlers set. The
  \<^verbatim>\<open>data\<close> payload of a success response is left out.
\<close>

record response =
  status :: nat
  success :: bool
  message :: string
  error :: "string option"
  stack :: "string option"
  errors :: "string list"

definition json :: "nat \<Rightarrow> bool \<Rightarrow> string \<Rightarrow> response" where
  "json st ok msg =
     \<lparr>status = st, success = ok, message = msg, error = None, stack = None, errors = []\<rparr>"

text \<open>
  The error kinds of the specification, read off the HTTP status: the kind a client sees.
\<close>

datatype error_kind =
  ValidationFailed | Unauthenticated | Forbidden | NotFound | Conflict | Internal

definition kind_of_status :: "nat \<Rightarrow> error_kind option" where
  "kind_of_status st =
     (if st = 400 then Some ValidationFailed
      else if st = 401 then Some Unauthenticated
      else if st = 403 then Some Forbidden
      else if st = 404 then Some NotFound
      else if st = 409 then Some Conflict
      else if st = 500 then Some Internal
      else None)"

section \<open>The authentication middleware (\<^verbatim>\<open>middleware/auth.js\<close>)\<close>

text \<open>
  \<^verbatim>\<open>sendErrorResponse(res, statusCode, message, error = null)\<close> of the middleware: the
  details of the error are added in development only.
\<close>

definition sendErrorResponse :: "env \<Rightarrow> nat \<Rightarrow> string \<Rightarrow> js_error option \<Rightarrow> response" where
  "sendErrorResponse e st msg err =
     (case err of
        None \<Rightarrow> json st False msg
      | Some x \<Rightarrow>
          if NODE_ENV e = Some ''development''
          then (json st False msg)\<lparr>error := Some (err_message x), stack := Some (err_stack x)\<rparr>
          else json st False msg)"

text \<open>
  \<^verbatim>\<open>jwt.verify(token, secret)\<close> belongs to a library: it is a parameter. It throws, or it
  returns the decoded payload, of which the code reads the \<^verbatim>\<open>id\<close>.
\<close>

type_synonym jwt_verify = "string \<Rightarrow> string \<Rightarrow> js_error + string option"

text \<open>The token of the \<^verbatim>\<open>Authorization\<close> header, as \<^verbatim>\<open>protect\<close> extracts it.\<close>

definition bearer_token :: "string option \<Rightarrow> string option" where
  "bearer_token authorization =
     (case authorization of
        None \<Rightarrow> None
      | Some a \<Rightarrow>
          if a \<noteq> [] \<and> startsWith a ''Bearer'' then index (split CHR '' '' a) 1 else None)"

text \<open>
  \<^verbatim>\<open>protect\<close>: the result is the response that ends the request, or the user attached to
  the request as \<^verbatim>\<open>req.user\<close> when \<^verbatim>\<open>next()\<close> is called. The lookup of the user throws
  by a fault of the database, or because the id of the token cannot be cast.
\<close>

definition protect ::
  "env \<Rightarrow> jwt_verify \<Rightarrow> faults \<Rightarrow> db \<Rightarrow> string option \<Rightarrow> response + user" where
  "protect e verify flt d authorization =
     (let token = bearer_token authorization in
      if \<not> truthy token then Inl (sendErrorResponse e 401 ''Access denied. No token provided.'' None)
      else if \<not> truthy (JWT_SECRET e) then Inl (sendErrorResponse e 500 ''Server configuration error'' None)
      else
        (case verify (the token) (the (JWT_SECRET e)) of
           Inl jwtError \<Rightarrow> Inl (sendErrorResponse e 401 ''Invalid or expired token'' (Some jwtError))
         | Inr decoded_id \<Rightarrow>
             if \<not> truthy decoded_id then Inl (sendErrorResponse e 401 ''Invalid token payload'' None)
             else
               (case flt User_findById of
                  Some dbError \<Rightarrow>
                    Inl (sendErrorResponse e 500 ''Database error during authentication'' (Some dbError))
                | None \<Rightarrow>
                    if castObjectId (the decoded_id) = None then
                      Inl (sendErrorResponse e 500 ''Database error during authentication''
                             (Some (CastError (the decoded_id) ''User'')))
                    else
                      (case findById (users d) (the decoded_id) of
                         None \<Rightarrow>
                           Inl (sendErrorResponse e 401 ''Token is not valid. User no longer exists.'' None)
                       | Some u \<Rightarrow>
                           if \<not> user_isActive u
                           then Inl (sendErrorResponse e 401 ''User account is deactivated.'' None)
                           else Inr (select_no_password u)))))"

text \<open>
  \<^verbatim>\<open>checkRole(...roles)\<close>: the result is the response that ends the request, or \<open>()\<close> when
  \<^verbatim>\<open>next()\<close> is called.
\<close>

definition checkRole :: "env \<Rightarrow> string list \<Rightarrow> user option \<Rightarrow> response + unit" where
  "checkRole e roles req_user =
     (case req_user of
        None \<Rightarrow> Inl (sendErrorResponse e 401 ''Authentication required. Please log in.'' None)
      | Some u \<Rightarrow>
          if role u = [] then
            Inl (sendErrorResponse e 401 ''Invalid user session. Please log in again.'' None)
          else if roles = [] then
            Inl (sendErrorResponse e 500 ''Server configuration error: No roles specified'' None)
          else if role u \<notin> set roles then
            Inl (sendErrorResponse e 403
                  (''Access denied. Required role(s): '' @ join '', '' roles @ ''. Your role: '' @ role u)
                  None)
          else Inr ())"

definition superAdminOnly :: "env \<Rightarrow> user option \<Rightarrow> response + unit" where
  "superAdminOnly e = checkRole e [''super_admin'']"

definition adminOrSuperAdmin :: "env \<Rightarrow> user option \<Rightarrow> response + unit" where
  "adminOrSuperAdmin e = checkRole e [''admin'', ''super_admin'']"

definition canPerformCRUD :: "env \<Rightarrow> user option \<Rightarrow> response + unit" where
  "canPerformCRUD e = checkRole e [''admin'', ''super_admin'']"

definition canDelete :: "env \<Rightarrow> user option \<Rightarrow> response + unit" where
  "canDelete e = checkRole e [''super_admin'']"

definition canManageUsers :: "env \<Rightarrow> user option \<Rightarrow> response + unit" where
  "canManageUsers e = checkRole e [''super_admin'']"

definition authenticatedUser :: "env \<Rightarrow> user option \<Rightarrow> response + unit" where
  "authenticatedUser e = checkRole e [''user'', ''admin'', ''super_admin'']"

section \<open>The permission helpers\<close>

datatype capability = Read | Create | Update | Delete | ManageUsers

text \<open>
  The role middleware that the routes mount in front of each operation: reading items
  (\<^verbatim>\<open>GET /api/items\<close>), creating and updating them (\<^verbatim>\<open>POST\<close>, \<^verbatim>\<open>PUT\<close>), deleting them
  (\<^verbatim>\<open>DELETE\<close>), and the user administration routes.
\<close>

fun route_guard :: "capability \<Rightarrow> env \<Rightarrow> user option \<Rightarrow> response + unit" where
  "route_guard Read = authenticatedUser"
| "route_guard Create = canPerformCRUD"
| "route_guard Update = canPerformCRUD"
| "route_guard Delete = canDelete"
| "route_guard ManageUsers = canManageUsers"

subsection \<open>\<^verbatim>\<open>frontend/src/utils/permissions.js\<close>\<close>

definition PERMISSIONS :: "(string \<times> (string \<times> bool) list) list" where
  "PERMISSIONS =
     [(''user'',
        [(''read'', True), (''create'', False), (''update'', False), (''delete'', False),
         (''manageUsers'', False)]),
      (''admin'',
        [(''read'', True), (''create'', True), (''update'', True), (''delete'', False),
         (''manageUsers'', False)]),
      (''super_admin'',
        [(''read'', True), (''create'', True), (''update'', True), (''delete'', True),
         (''manageUsers'', True)])]"

text \<open>
  A key that an object literal does not have is looked up in \<^verbatim>\<open>Object.prototype\<close>, whose
  members are functions or objects, all truthy.
\<close>

definition object_prototype_keys :: "string list" where
  "object_prototype_keys =
     [''constructor'', ''__defineGetter__'', ''__defineSetter__'', ''hasOwnProperty'',
      ''__lookupGetter__'', ''__lookupSetter__'', ''isPrototypeOf'', ''propertyIsEnumerable'',
      ''toString'', ''valueOf'', ''__proto__'', ''toLocaleString'']"

text \<open>
  \<^verbatim>\<open>hasPermissions(role, requiredPermissions)\<close>. A permission that is no key of the role's
  entry reads as the inherited member of that name when there is one, and as
  \<^verbatim>\<open>undefined\<close>, which is falsy, otherwise. A role that is no key of the table but the name
  of an inherited member \<open>m\<close> gives that member for the entry; whether the member of \<open>m\<close>
  with the name of a permission is truthy is a fact of the engine, the parameter
  \<open>inherited\<close>.
\<close>

definition hasPermissions ::
  "(string \<Rightarrow> string \<Rightarrow> bool) \<Rightarrow> string option \<Rightarrow> string list option \<Rightarrow> bool" where
  "hasPermissions inherited r requiredPermissions =
     (if \<not> truthy r then False
      else if requiredPermissions = None then False
      else
        (case map_of PERMISSIONS (the r) of
           Some rolePermissions \<Rightarrow>
             list_all
               (\<lambda>permission.
                  case map_of rolePermissions permission of
                    Some b \<Rightarrow> b
                  | None \<Rightarrow> permission \<in> set object_prototype_keys)
               (the requiredPermissions)
         | None \<Rightarrow>
             if the r \<in> set object_prototype_keys
             then list_all (inherited (the r)) (the requiredPermissions)
             else False))"

text \<open>The name the table of \<^verbatim>\<open>PERMISSIONS\<close> gives to each capability.\<close>

fun permission_name :: "capability \<Rightarrow> string" where
  "permission_name Read = ''read''"
| "permission_name Create = ''create''"
| "permission_name Update = ''update''"
| "permission_name Delete = ''delete''"
| "permission_name ManageUsers = ''manageUsers''"

subsection \<open>The TypeScript helpers (\<^verbatim>\<open>getRolePermissions\<close>, \<^verbatim>\<open>hasPermission\<close>)\<close>

record RolePermissions =
  canCreate :: bool
  canRead :: bool
  canUpdate :: bool
  canDelete_perm :: bool
  canManageUsers_perm :: bool

definition getRolePermissions :: "string \<Rightarrow> RolePermissions" where
  "getRolePermissions r =
     (if r = ''super_admin'' then
        \<lparr>canCreate = True, canRead = True, canUpdate = True, canDelete_perm = True,
         canManageUsers_perm = True\<rparr>
      else if r = ''admin'' then
        \<lparr>canCreate = True, canRead = True, canUpdate = True, canDelete_perm = True,
         canManageUsers_perm = False\<rparr>
      else
        \<lparr>canCreate = False, canRead = True, canUpdate = False, canDelete_perm = False,
         canManageUsers_perm = False\<rparr>)"

text \<open>\<^verbatim>\<open>hasPermission(role, permission)\<close>: the key of the record is given by the capability.\<close>

fun hasPermission :: "string \<Rightarrow> capability \<Rightarrow> bool" where
  "hasPermission r Create = canCreate (getRolePermissions r)"
| "hasPermission r Read = canRead (getRolePermissions r)"
| "hasPermission r Update = canUpdate (getRolePermissions r)"
| "hasPermission r Delete = canDelete_perm (getRolePermissions r)"
| "hasPermission r ManageUsers = canManageUsers_perm (getRolePermissions r)"

subsection \<open>The methods of the models\<close>

text \<open>\<^verbatim>\<open>itemSchema.methods.canEdit\<close> and \<^verbatim>\<open>itemSchema.methods.canDelete\<close>.\<close>

definition item_canEdit :: "user \<Rightarrow> bool" where
  "item_canEdit u = (if role u \<in> set [''super_admin'', ''admin''] then True else False)"

definition item_canDelete :: "user \<Rightarrow> bool" where
  "item_canDelete u = (if role u \<in> set [''super_admin'', ''admin''] then True else False)"

text \<open>\<^verbatim>\<open>userSchema.methods.canManageUsers\<close>, \<^verbatim>\<open>canPerformCRUD\<close> and \<^verbatim>\<open>isReadOnly\<close>.\<close>

definition user_canManageUsers :: "user \<Rightarrow> bool" where
  "user_canManageUsers u = (role u = ''super_admin'')"

definition user_canPerformCRUD :: "user \<Rightarrow> bool" where
  "user_canPerformCRUD u = (role u \<in> set [''admin'', ''super_admin''])"

definition user_isReadOnly :: "user \<Rightarrow> bool" where
  "user_isReadOnly u = (role u = ''user'')"

subsection \<open>The table of the specification\<close>

text \<open>
  The role to capability table as the specification words it: a user may only read; an
  admin may read, create and update; a super admin may do everything.
\<close>

definition spec_authorize :: "string \<Rightarrow> capability \<Rightarrow> bool" where
  "spec_authorize r c =
     (if r = ''user'' then c = Read
      else if r = ''admin'' then c \<in> {Read, Create, Update}
      else if r = ''super_admin'' then True
      else False)"

definition the_roles :: "string list" where
  "the_roles = [''user'', ''admin'', ''super_admin'']"

section \<open>The user administration routes (\<^verbatim>\<open>routes/users.js\<close>)\<close>

text \<open>
  A handler gets the database, the authenticated user \<^verbatim>\<open>req.user\<close>, the parameters and
  body fields it reads, and the messages that \<^verbatim>\<open>validationResult(req)\<close> holds; it
  returns the response and the database it leaves. A thrown exception of a database call
  is caught by the handler's \<^verbatim>\<open>catch\<close>. The test that protects the acting user compares
  the parameter, a string, with the string of the user's id; the lookup that follows casts
  the parameter to an id.
\<close>

definition validation_failed :: "string list \<Rightarrow> response" where
  "validation_failed errs = (json 400 False ''Validation failed'')\<lparr>errors := errs\<rparr>"

text \<open>
  \<^verbatim>\<open>user.save()\<close> after an assignment to one field: the stored document with that id gets
  the field.
\<close>

definition update_user :: "objectId \<Rightarrow> (user \<Rightarrow> user) \<Rightarrow> user list \<Rightarrow> user list" where
  "update_user i f us = map (\<lambda>x. if user_id x = i then f x else x) us"

text \<open>The values that the schema's \<^verbatim>\<open>enum\<close> allows for the role.\<close>

definition role_enum :: "string list" where
  "role_enum = [''user'', ''admin'', ''super_admin'']"

text \<open>\<^verbatim>\<open>PUT /api/users/:id/role\<close>.\<close>

definition putUserRole ::
  "faults \<Rightarrow> db \<Rightarrow> user \<Rightarrow> string \<Rightarrow> string \<Rightarrow> string list \<Rightarrow> response \<times> db" where
  "putUserRole flt d req_user params_id body_role errs =
     (if errs \<noteq> [] then (validation_failed errs, d)
      else if params_id = id_toString (user_id req_user) then
        (json 400 False ''You cannot change your own role'', d)
      else if flt User_findById \<noteq> None then
        (json 500 False ''Server error while updating user role'', d)
      else if castObjectId params_id = None then
        (json 500 False ''Server error while updating user role'', d)
      else
        (case findById (users d) params_id of
           None \<Rightarrow> (json 404 False ''User not found'', d)
         | Some u \<Rightarrow>
             if flt User_save \<noteq> None then
               (json 500 False ''Server error while updating user role'', d)
             else if body_role \<notin> set role_enum then
               (json 500 False ''Server error while updating user role'', d)
             else
               (json 200 True (''User role updated to '' @ body_role @ '' successfully''),
                d\<lparr>users := update_user (user_id u) (\<lambda>x. x\<lparr>role := body_role\<rparr>) (users d)\<rparr>)))"

text \<open>\<^verbatim>\<open>PUT /api/users/:id/toggle-activation\<close>.\<close>

definition putUserToggleActivation ::
  "faults \<Rightarrow> db \<Rightarrow> user \<Rightarrow> string \<Rightarrow> string list \<Rightarrow> response \<times> db" where
  "putUserToggleActivation flt d req_user params_id errs =
     (if errs \<noteq> [] then (validation_failed errs, d)
      else if params_id = id_toString (user_id req_user) then
        (json 400 False ''You cannot change your own account status'', d)
      else if flt User_findById \<noteq> None then
        (json 500 False ''Server error while toggling user activation status'', d)
      else if castObjectId params_id = None then
        (json 500 False ''Server error while toggling user activation status'', d)
      else
        (case findById (users d) params_id of
           None \<Rightarrow> (json 404 False ''User not found'', d)
         | Some u \<Rightarrow>
             if flt User_save \<noteq> None then
               (json 500 False ''Server error while toggling user activation status'', d)
             else
               (json 200 True
                  (''User account '' @ (if \<not> user_isActive u then ''activated'' else ''deactivated'')
                     @ '' successfully''),
                d\<lparr>users :=
                    update_user (user_id u) (\<lambda>x. x\<lparr>user_isActive := \<not> user_isActive u\<rparr>) (users d)\<rparr>)))"

text \<open>
  \<^verbatim>\<open>PUT /api/users/:id/status\<close>. The body's \<^verbatim>\<open>isActive\<close> is taken as the boolean it
  denotes.
\<close>

definition putUserStatus ::
  "faults \<Rightarrow> db \<Rightarrow> user \<Rightarrow> string \<Rightarrow> bool \<Rightarrow> string list \<Rightarrow> response \<times> db" where
  "putUserStatus flt d req_user params_id body_isActive errs =
     (if errs \<noteq> [] then (validation_failed errs, d)
      else if params_id = id_toString (user_id req_user) then
        (json 400 False ''You cannot change your own account status'', d)
      else if flt User_findById \<noteq> None then
        (json 500 False ''Server error while updating user status'', d)
      else if castObjectId params_id = None then
        (json 500 False ''Server error while updating user status'', d)
      else
        (case findById (users d) params_id of
           None \<Rightarrow> (json 404 False ''User not found'', d)
         | Some u \<Rightarrow>
             if flt User_save \<noteq> None then
               (json 500 False ''Server error while updating user status'', d)
             else
               (json 200 True
                  (''User account '' @ (if body_isActive then ''activated'' else ''deactivated'')
                     @ '' successfully''),
                d\<lparr>users :=
                    update_user (user_id u) (\<lambda>x. x\<lparr>user_isActive := body_isActive\<rparr>) (users d)\<rparr>)))"

text \<open>
  \<^verbatim>\<open>Item.updateMany({ createdBy: user._id }, { isActive: false })\<close>: every item created by
  the user is set inactive.
\<close>

definition deactivate_items_of :: "objectId \<Rightarrow> item list \<Rightarrow> item list" where
  "deactivate_items_of i its =
     map (\<lambda>x. if createdBy x = i then x\<lparr>item_isActive := False\<rparr> else x) its"

text \<open>
  \<^verbatim>\<open>DELETE /api/users/:id\<close>. The user is saved before the items are updated: when the
  second call throws, the user stays deactivated.
\<close>

definition deleteUser ::
  "faults \<Rightarrow> db \<Rightarrow> user \<Rightarrow> string \<Rightarrow> string list \<Rightarrow> response \<times> db" where
  "deleteUser flt d req_user params_id errs =
     (if errs \<noteq> [] then (validation_failed errs, d)
      else if params_id = id_toString (user_id req_user) then
        (json 400 False ''You cannot delete your own account'', d)
      else if flt User_findById \<noteq> None then
        (json 500 False ''Server error while deleting user'', d)
      else if castObjectId params_id = None then
        (json 500 False ''Server error while deleting user'', d)
      else
        (case findById (users d) params_id of
           None \<Rightarrow> (json 404 False ''User not found'', d)
         | Some u \<Rightarrow>
             if flt User_save \<noteq> None then
               (json 500 False ''Server error while deleting user'', d)
             else
               (let d1 = d\<lparr>users :=
                          update_user (user_id u) (\<lambda>x. x\<lparr>user_isActive := False\<rparr>) (users d)\<rparr>
                in if flt Item_updateMany \<noteq> None then
                     (json 500 False ''Server error while deleting user'', d1)
                   else
                     (json 200 True ''User account deleted successfully'',
                      d1\<lparr>items := deactivate_items_of (user_id u) (items d1)\<rparr>))))"

subsection \<open>The bulk update of roles\<close>

text \<open>
  An object literal is evaluated from left to right: a property that is written twice
  keeps the value written last.
\<close>

fun set_property :: "string \<Rightarrow> 'v \<Rightarrow> (string \<times> 'v) list \<Rightarrow> (string \<times> 'v) list" where
  "set_property k v [] = [(k, v)]"
| "set_property k v (p # ps) =
     (if fst p = k then (k, v) # ps else p # set_property k v ps)"

definition object_literal :: "(string \<times> 'v) list \<Rightarrow> (string \<times> 'v) list" where
  "object_literal kvs = foldl (\<lambda>obj kv. set_property (fst kv) (snd kv) obj) [] kvs"

text \<open>
  The query operators that the filter uses on the path \<^verbatim>\<open>_id\<close>: \<^verbatim>\<open>$in\<close> with the strings
  of the request, which the query casts to ids, and \<^verbatim>\<open>$ne\<close> with an id. A filter selects
  the documents that satisfy the condition of each of its properties; the filter of the
  handler has no property but \<^verbatim>\<open>_id\<close>. A string that cannot be cast makes the query throw.
\<close>

datatype condition = In "string list" | Ne objectId

fun holds :: "condition \<Rightarrow> objectId \<Rightarrow> bool" where
  "holds (In xs) x = (Some x \<in> set (map castObjectId xs))"
| "holds (Ne y) x = (x \<noteq> y)"

fun condition_castable :: "condition \<Rightarrow> bool" where
  "condition_castable (In xs) = list_all (\<lambda>x. castObjectId x \<noteq> None) xs"
| "condition_castable (Ne y) = True"

definition selects :: "(string \<times> condition) list \<Rightarrow> user \<Rightarrow> bool" where
  "selects flt_obj u = list_all (\<lambda>p. fst p = ''_id'' \<and> holds (snd p) (user_id u)) flt_obj"

text \<open>The filter object that the handler writes as a literal.\<close>

definition bulk_filter :: "string list \<Rightarrow> user \<Rightarrow> (string \<times> condition) list" where
  "bulk_filter userIds req_user =
     object_literal [(''_id'', In userIds), (''_id'', Ne (user_id req_user))]"

text \<open>
  \<^verbatim>\<open>User.updateMany(filter, { role })\<close>: the selected documents get the role;
  \<^verbatim>\<open>modifiedCount\<close> counts those whose role changes.
\<close>

definition updateMany_role ::
  "(string \<times> condition) list \<Rightarrow> string \<Rightarrow> user list \<Rightarrow> user list" where
  "updateMany_role flt_obj r us = map (\<lambda>x. if selects flt_obj x then x\<lparr>role := r\<rparr> else x) us"

definition modifiedCount :: "(string \<times> condition) list \<Rightarrow> string \<Rightarrow> user list \<Rightarrow> nat" where
  "modifiedCount flt_obj r us = length (filter (\<lambda>x. selects flt_obj x \<and> role x \<noteq> r) us)"

text \<open>A natural number in decimal, as a template literal prints it.\<close>

fun toString_nat :: "nat \<Rightarrow> string" where
  "toString_nat n =
     (if n < 10 then [''0123456789'' ! n]
      else toString_nat (n div 10) @ [''0123456789'' ! (n mod 10)])"

text \<open>
  \<^verbatim>\<open>PUT /api/users/bulk/roles\<close>. The test that protects the acting user is
  \<^verbatim>\<open>userIds.includes(req.user._id.toString())\<close>, on strings.
\<close>

definition putBulkRoles ::
  "faults \<Rightarrow> db \<Rightarrow> user \<Rightarrow> string list \<Rightarrow> string \<Rightarrow> string list \<Rightarrow> response \<times> db" where
  "putBulkRoles flt d req_user userIds body_role errs =
     (if errs \<noteq> [] then (validation_failed errs, d)
      else if id_toString (user_id req_user) \<in> set userIds then
        (json 400 False ''You cannot change your own role in bulk operations'', d)
      else if flt User_updateMany \<noteq> None then
        (json 500 False ''Server error while updating user roles'', d)
      else if \<not> list_all (\<lambda>p. condition_castable (snd p)) (bulk_filter userIds req_user) then
        (json 500 False ''Server error while updating user roles'', d)
      else
        (json 200 True
           (toString_nat (modifiedCount (bulk_filter userIds req_user) body_role (users d))
              @ '' user roles updated to '' @ body_role @ '' successfully''),
         d\<lparr>users := updateMany_role (bulk_filter userIds req_user) body_role (users d)\<rparr>))"

text \<open>
  A route: \<^verbatim>\<open>protect\<close>, then the role middleware, then the handler. A middleware that
  answers ends the request and leaves the state as it is.
\<close>

definition route ::
  "(response + user) \<Rightarrow> (user option \<Rightarrow> response + unit) \<Rightarrow> 's \<Rightarrow> (user \<Rightarrow> response \<times> 's)
   \<Rightarrow> response \<times> 's" where
  "route authenticated guard s handler =
     (case authenticated of
        Inl r \<Rightarrow> (r, s)
      | Inr u \<Rightarrow> (case guard (Some u) of Inl r \<Rightarrow> (r, s) | Inr _ \<Rightarrow> handler u))"

section \<open>The item model and routes (\<^verbatim>\<open>models/Item.js\<close>, \<^verbatim>\<open>routes/items.js\<close>)\<close>

text \<open>
  A \<^verbatim>\<open>Date\<close> is its time value, or \<open>None\<close> when it is an invalid date. A comparison with
  an invalid date is false.
\<close>

type_synonym date = "int option"

definition date_le :: "date \<Rightarrow> date \<Rightarrow> bool" where
  "date_le a b = (case a of None \<Rightarrow> False | Some x \<Rightarrow> (case b of None \<Rightarrow> False | Some y \<Rightarrow> x \<le> y))"

text \<open>
  \<^verbatim>\<open>new Date(v)\<close> for a field of the body: the parser of date strings is a parameter; a
  field that is missing gives an invalid date.
\<close>

definition newDate :: "(string \<Rightarrow> date) \<Rightarrow> string option \<Rightarrow> date" where
  "newDate parse v = (case v of None \<Rightarrow> None | Some s \<Rightarrow> parse s)"

subsection \<open>Arithmetic on numbers\<close>

text \<open>
  A number of JavaScript is a double: a multiple of a power of two by an integer of at most
  53 binary digits. The result of an operation is the double nearest to the exact result,
  the one with the even integer when two are equally near. The numbers of the virtual
  \<^verbatim>\<open>durationDays\<close> are far from the least and the greatest doubles, so the exponent is not
  bounded here.

  \<open>bits x\<close> is the number of binary digits of a positive integer.
\<close>

function bits :: "int \<Rightarrow> nat" where
  "bits x = (if x \<le> 0 then 0 else Suc (bits (x div 2)))"
  by pat_completeness auto
termination
  by (relation "measure nat") auto

declare bits.simps [simp del]

text \<open>The integer nearest to \<open>a / b\<close> for a positive \<open>b\<close>, the even one of two equally near.\<close>

definition round_half_even :: "int \<Rightarrow> int \<Rightarrow> int" where
  "round_half_even a b =
     (let q = a div b; r = a mod b in
      if 2 * r < b then q else if b < 2 * r then q + 1 else if even q then q else q + 1)"

text \<open>The double nearest to an integer.\<close>

definition double_of_int :: "int \<Rightarrow> int" where
  "double_of_int x =
     (let n = bits \<bar>x\<bar> in
      if n \<le> 53 then x
      else sgn x * (round_half_even \<bar>x\<bar> (2 ^ (n - 53)) * 2 ^ (n - 53)))"

text \<open>
  The quotient \<open>a / b\<close> of two doubles that are a natural number \<open>a\<close> and a positive integer
  \<open>b\<close>: with \<open>l\<close> the integer such that \<open>2 ^ l \<le> a / b < 2 ^ (l + 1)\<close>, the quotient is
  rounded to a multiple of \<open>2 ^ (l - 52)\<close>.
\<close>

definition floor_log2 :: "int \<Rightarrow> int \<Rightarrow> int" where
  "floor_log2 a b =
     (let n = int (bits a) - int (bits b) in
      if b * 2 ^ nat n \<le> a * 2 ^ nat (- n) then n else n - 1)"

definition double_quotient :: "int \<Rightarrow> int \<Rightarrow> real" where
  "double_quotient a b =
     (if a = 0 then 0
      else
        (let l = floor_log2 a b; up = nat (l - 52); down = nat (52 - l);
             m = round_half_even (a * 2 ^ down) (b * 2 ^ up)
         in real_of_int m * 2 ^ up / 2 ^ down))"

text \<open>
  The virtual \<^verbatim>\<open>durationDays\<close>: the time values of the two dates are integers that doubles
  hold exactly; their difference and the quotient are rounded; \<^verbatim>\<open>Math.abs\<close> and
  \<^verbatim>\<open>Math.ceil\<close> are exact. Then \<^verbatim>\<open>isExpired\<close> at the time \<open>now\<close>.
\<close>

definition durationDays :: "item \<Rightarrow> int" where
  "durationDays it =
     (let diffTime = \<bar>double_of_int (dateRange_end it - dateRange_start it)\<bar>;
          diffDays = \<lceil>double_quotient diffTime (1000 * 60 * 60 * 24)\<rceil>
      in diffDays)"

definition isExpired :: "int \<Rightarrow> item \<Rightarrow> bool" where
  "isExpired now it = (dateRange_end it < now)"

subsection \<open>The upload middleware (\<^verbatim>\<open>middleware/upload.js\<close>)\<close>

text \<open>\<^verbatim>\<open>str.trim()\<close> on the white space of ASCII.\<close>

definition isspace :: "char \<Rightarrow> bool" where
  "isspace c = (c \<in> set [CHR '' '', CHR 0x09, CHR 0x0A, CHR 0x0B, CHR 0x0C, CHR 0x0D])"

definition trim :: "string \<Rightarrow> string" where
  "trim s = rev (dropWhile isspace (rev (dropWhile isspace s)))"

text \<open>
  The file \<^verbatim>\<open>req.file\<close> of multer, as far as the handlers read it. The storage of the
  middleware is the disk storage, which sets no \<^verbatim>\<open>buffer\<close>.
\<close>

record multer_file =
  mimetype :: string
  buffer_base64 :: "string option"

text \<open>
  What \<^verbatim>\<open>uploadSingleImage\<close>, the middleware of multer, does with a request is a
  parameter: it calls back with an error; or it finds no file in the field \<^verbatim>\<open>image\<close>,
  as for a request that is not a multipart form; or it has stored the file in the upload
  directory under the name it made and set \<^verbatim>\<open>req.file\<close>.
\<close>

record upload_error =
  is_MulterError :: bool
  upload_code :: string
  upload_message :: string

datatype upload = Upload_error upload_error | No_file | Stored string string

text \<open>\<^verbatim>\<open>handleUploadError\<close>.\<close>

definition handleUploadError :: "upload_error \<Rightarrow> response" where
  "handleUploadError err =
     (if is_MulterError err \<and> upload_code err = ''LIMIT_FILE_SIZE'' then
        json 400 False ''File too large. Maximum size allowed is 5MB.''
      else if is_MulterError err \<and> upload_code err = ''LIMIT_FILE_COUNT'' then
        json 400 False ''Too many files. Only one image is allowed.''
      else if is_MulterError err \<and> upload_code err = ''LIMIT_UNEXPECTED_FILE'' then
        json 400 False
          (''Unexpected field name. Use '' @ [CHR 0x22] @ ''image'' @ [CHR 0x22]
             @ '' field for file upload.'')
      else if string_includes (upload_message err) ''Invalid file type'' then
        json 400 False (upload_message err)
      else if string_includes (upload_message err) ''Only image files'' then
        json 400 False (upload_message err)
      else json 500 False (''File upload error: '' @ upload_message err))"

text \<open>
  \<^verbatim>\<open>processImageUpload\<close>: the result is the response that ends the request, or
  \<^verbatim>\<open>req.uploadedFile.filename\<close> and \<^verbatim>\<open>req.file\<close> with the state in which the file is
  stored.
\<close>

definition processImageUpload ::
  "upload \<Rightarrow> world \<Rightarrow> response + (string \<times> multer_file) \<times> world" where
  "processImageUpload up w =
     (case up of
        Upload_error err \<Rightarrow> Inl (handleUploadError err)
      | No_file \<Rightarrow>
          Inl (json 400 False ''No image file uploaded. Please select an image to upload.'')
      | Stored filename mt \<Rightarrow>
          Inr ((filename, \<lparr>mimetype = mt, buffer_base64 = None\<rparr>),
               w\<lparr>uploads := insert filename (uploads w)\<rparr>))"

text \<open>
  \<^verbatim>\<open>validateImageFile\<close>, in front of the update of an item: the upload is processed only
  when \<^verbatim>\<open>req.file\<close> is set already.
\<close>

definition validateImageFile ::
  "multer_file option \<Rightarrow> upload \<Rightarrow> world
   \<Rightarrow> response + (string \<times> multer_file) option \<times> world" where
  "validateImageFile req_file up w =
     (case req_file of
        None \<Rightarrow> Inr (None, w)
      | Some f \<Rightarrow>
          (case processImageUpload up w of
             Inl r \<Rightarrow> Inl r
           | Inr (uf, w1) \<Rightarrow> Inr (Some uf, w1)))"

text \<open>
  \<^verbatim>\<open>deleteUploadedFile(filename)\<close>: a file that exists is removed; when the removal throws,
  the exception is caught and the file stays. The handlers do not read the result. Then the
  cleanup that the handlers run before an error response when a file was uploaded.
\<close>

definition deleteUploadedFile :: "faults \<Rightarrow> string \<Rightarrow> world \<Rightarrow> world" where
  "deleteUploadedFile flt filename w =
     (if filename \<in> uploads w then
        (if flt Fs_unlinkSync \<noteq> None then w else w\<lparr>uploads := uploads w - {filename}\<rparr>)
      else w)"

definition cleanup :: "faults \<Rightarrow> string option \<Rightarrow> world \<Rightarrow> world" where
  "cleanup flt uploadedFile w =
     (case uploadedFile of None \<Rightarrow> w | Some filename \<Rightarrow> deleteUploadedFile flt filename w)"

subsection \<open>The validation of the schema\<close>

text \<open>
  The validator of \<^verbatim>\<open>dateRange.end\<close>, \<^verbatim>\<open>value > this.dateRange.start\<close>. Its first argument
  is the start that \<^verbatim>\<open>this\<close> holds when \<^verbatim>\<open>this\<close> is the document that is validated. In
  the validation of an update \<^verbatim>\<open>this\<close> is not the document and has no \<^verbatim>\<open>dateRange\<close>: the
  read throws, and the value is not valid.
\<close>

definition dateRange_end_validator :: "int option \<Rightarrow> int \<Rightarrow> bool" where
  "dateRange_end_validator this_start v =
     (case this_start of None \<Rightarrow> False | Some s \<Rightarrow> s < v)"

text \<open>
  The validation of the item schema when a document is created: the required paths, the
  length of the note, and the validator of \<^verbatim>\<open>dateRange.end\<close>.
\<close>

definition item_schema_valid :: "string \<Rightarrow> date \<Rightarrow> date \<Rightarrow> string \<Rightarrow> bool" where
  "item_schema_valid img start_d end_d nt =
     (trim img \<noteq> [] \<and> start_d \<noteq> None \<and> end_d \<noteq> None
      \<and> dateRange_end_validator start_d (the end_d)
      \<and> trim nt \<noteq> [] \<and> length (trim nt) \<le> 1000)"

text \<open>
  \<^verbatim>\<open>POST /api/items\<close>. The id of the new document is chosen by the database. When
  \<^verbatim>\<open>req.uploadedFile\<close> is missing its \<^verbatim>\<open>filename\<close> cannot be read, which throws. The
  created item is populated with its creator by a further call, which may throw when the
  item is stored already.
\<close>

definition postItem ::
  "(string \<Rightarrow> date) \<Rightarrow> env \<Rightarrow> faults \<Rightarrow> world \<Rightarrow> user \<Rightarrow> string option \<Rightarrow> multer_file option
   \<Rightarrow> string option \<Rightarrow> string option \<Rightarrow> string option \<Rightarrow> objectId \<Rightarrow> string list
   \<Rightarrow> response \<times> world" where
  "postItem parse e flt w req_user uploadedFile req_file startDate endDate body_note new_id errs =
     (if errs \<noteq> [] then (validation_failed errs, cleanup flt uploadedFile w)
      else
        (let start_d = newDate parse startDate; end_d = newDate parse endDate in
         if date_le end_d start_d then
           (json 400 False ''End date must be after start date'', cleanup flt uploadedFile w)
         else
           (let imageData =
                  (if NODE_ENV e = Some ''production'' \<and> req_file \<noteq> None
                      \<and> truthy (buffer_base64 (the req_file))
                   then Some (''data:'' @ mimetype (the req_file) @ '';base64,''
                              @ the (buffer_base64 (the req_file)))
                   else uploadedFile)
            in if imageData = None then
                 (json 500 False ''Server error while creating item'', cleanup flt uploadedFile w)
               else if flt Item_create \<noteq> None then
                 (json 500 False ''Server error while creating item'', cleanup flt uploadedFile w)
               else if body_note = None then
                 (json 500 False ''Server error while creating item'', cleanup flt uploadedFile w)
               else if \<not> item_schema_valid (the imageData) start_d end_d (the body_note) then
                 (json 500 False ''Server error while creating item'', cleanup flt uploadedFile w)
               else
                 (let w1 = w\<lparr>database := (database w)\<lparr>items := items (database w) @
                        [\<lparr>item_id = new_id, item_image = trim (the imageData),
                          dateRange_start = the start_d, dateRange_end = the end_d,
                          item_note = trim (the body_note), createdBy = user_id req_user,
                          updatedBy = None, item_isActive = True\<rparr>]\<rparr>\<rparr>
                  in if flt Item_populate \<noteq> None then
                       (json 500 False ''Server error while creating item'',
                        cleanup flt uploadedFile w1)
                     else (json 201 True ''Item created successfully'', w1)))))"

text \<open>\<^verbatim>\<open>Item.findOne({ _id: id, isActive: true })\<close> for an id that can be cast.\<close>

definition findOne_active :: "item list \<Rightarrow> string \<Rightarrow> item option" where
  "findOne_active its i = find (\<lambda>x. castObjectId i = Some (item_id x) \<and> item_isActive x) its"

text \<open>
  The update object that the handler builds, and \<^verbatim>\<open>Item.findByIdAndUpdate\<close>, which sets
  the paths of the update object in the document with the id.
\<close>

record updateData =
  upd_updatedBy :: objectId
  upd_dateRange :: "(date \<times> date) option"
  upd_note :: "string option"
  upd_image :: "string option"

definition apply_update :: "updateData \<Rightarrow> item \<Rightarrow> item" where
  "apply_update u x =
     (let x1 = x\<lparr>updatedBy := Some (upd_updatedBy u)\<rparr>;
          x2 = (case upd_dateRange u of
                  None \<Rightarrow> x1
                | Some r \<Rightarrow> x1\<lparr>dateRange_start := the (fst r), dateRange_end := the (snd r)\<rparr>);
          x3 = (case upd_note u of None \<Rightarrow> x2 | Some n \<Rightarrow> x2\<lparr>item_note := trim n\<rparr>)
      in (case upd_image u of None \<Rightarrow> x3 | Some i \<Rightarrow> x3\<lparr>item_image := trim i\<rparr>))"

definition findByIdAndUpdate :: "string \<Rightarrow> updateData \<Rightarrow> item list \<Rightarrow> item list" where
  "findByIdAndUpdate i u its =
     map (\<lambda>x. if castObjectId i = Some (item_id x) then apply_update u x else x) its"

text \<open>
  The validation of an update, which the option \<^verbatim>\<open>runValidators\<close> asks for: each path of
  the update object is cast and checked by the validators of the schema. A date range
  must hold two valid dates, and its end is given to the validator of \<^verbatim>\<open>dateRange.end\<close>,
  for which \<^verbatim>\<open>this\<close> is not the document; a note and an image are trimmed and
  required, and the note has at most 1000 characters.
\<close>

definition update_valid :: "updateData \<Rightarrow> bool" where
  "update_valid u =
     ((case upd_dateRange u of
         None \<Rightarrow> True
       | Some r \<Rightarrow>
           (case fst r of
              None \<Rightarrow> False
            | Some s \<Rightarrow>
                (case snd r of None \<Rightarrow> False | Some t \<Rightarrow> dateRange_end_validator None t)))
      \<and> (case upd_note u of None \<Rightarrow> True | Some n \<Rightarrow> trim n \<noteq> [] \<and> length (trim n) \<le> 1000)
      \<and> (case upd_image u of None \<Rightarrow> True | Some i \<Rightarrow> trim i \<noteq> []))"

text \<open>The range that an update validates: a bound that is not supplied is the stored one.\<close>

definition currentStart :: "(string \<Rightarrow> date) \<Rightarrow> item \<Rightarrow> string option \<Rightarrow> date" where
  "currentStart parse it startDate =
     (if truthy startDate then newDate parse startDate else Some (dateRange_start it))"

definition currentEnd :: "(string \<Rightarrow> date) \<Rightarrow> item \<Rightarrow> string option \<Rightarrow> date" where
  "currentEnd parse it endDate =
     (if truthy endDate then newDate parse endDate else Some (dateRange_end it))"

text \<open>
  The image of the update: in production a buffered file is stored inline; otherwise the
  uploaded file replaces the stored one, whose file is deleted unless it is inline.
\<close>

definition image_update ::
  "env \<Rightarrow> faults \<Rightarrow> item \<Rightarrow> string option \<Rightarrow> multer_file option \<Rightarrow> world
   \<Rightarrow> string option \<times> world" where
  "image_update e flt it uploadedFile req_file w =
     (if (if uploadedFile = None then req_file \<noteq> None \<and> truthy (buffer_base64 (the req_file))
          else True)
      then
        (if NODE_ENV e = Some ''production'' \<and> req_file \<noteq> None
            \<and> truthy (buffer_base64 (the req_file))
         then (Some (''data:'' @ mimetype (the req_file) @ '';base64,''
                     @ the (buffer_base64 (the req_file))), w)
         else if uploadedFile \<noteq> None then
           (uploadedFile,
            if item_image it \<noteq> [] \<and> \<not> startsWith (item_image it) ''data:''
            then deleteUploadedFile flt (item_image it) w else w)
         else (None, w))
      else (None, w))"

text \<open>
  \<^verbatim>\<open>PUT /api/items/:id\<close>. The lookup of the item throws when the id cannot be cast. The
  update throws when the validation of the update fails, and nothing is stored then. The
  population of the updated item may throw when the update is stored already.
\<close>

definition putItem ::
  "(string \<Rightarrow> date) \<Rightarrow> env \<Rightarrow> faults \<Rightarrow> world \<Rightarrow> user \<Rightarrow> string \<Rightarrow> string option
   \<Rightarrow> multer_file option \<Rightarrow> string option \<Rightarrow> string option \<Rightarrow> string option \<Rightarrow> string list
   \<Rightarrow> response \<times> world" where
  "putItem parse e flt w req_user params_id uploadedFile req_file startDate endDate body_note errs =
     (if errs \<noteq> [] then (validation_failed errs, cleanup flt uploadedFile w)
      else if flt Item_findOne \<noteq> None then
        (json 500 False ''Server error while updating item'', cleanup flt uploadedFile w)
      else if castObjectId params_id = None then
        (json 500 False ''Server error while updating item'', cleanup flt uploadedFile w)
      else
        (case findOne_active (items (database w)) params_id of
           None \<Rightarrow> (json 404 False ''Item not found'', cleanup flt uploadedFile w)
         | Some it \<Rightarrow>
             if (truthy startDate \<or> truthy endDate)
                \<and> date_le (currentEnd parse it endDate) (currentStart parse it startDate)
             then (json 400 False ''End date must be after start date'', cleanup flt uploadedFile w)
             else
               (let img = image_update e flt it uploadedFile req_file w;
                    u = \<lparr>upd_updatedBy = user_id req_user,
                         upd_dateRange =
                           (if truthy startDate \<or> truthy endDate
                            then Some (currentStart parse it startDate, currentEnd parse it endDate)
                            else None),
                         upd_note = body_note,
                         upd_image = fst img\<rparr>
                in if flt Item_findByIdAndUpdate \<noteq> None then
                     (json 500 False ''Server error while updating item'',
                      cleanup flt uploadedFile (snd img))
                   else if \<not> update_valid u then
                     (json 500 False ''Server error while updating item'',
                      cleanup flt uploadedFile (snd img))
                   else
                     (let w1 = (snd img)\<lparr>database := (database w)\<lparr>items :=
                            findByIdAndUpdate params_id u (items (database w))\<rparr>\<rparr>
                      in if flt Item_populate \<noteq> None then
                           (json 500 False ''Server error while updating item'',
                            cleanup flt uploadedFile w1)
                         else (json 200 True ''Item updated successfully'', w1)))))"

section \<open>Registration (\<^verbatim>\<open>routes/auth.js\<close>)\<close>

text \<open>
  The functions of libraries that the registration calls: the e-mail check and
  normalisation of the validator, the password hash, and the signing of a token.
\<close>

record library =
  isEmail :: "string \<Rightarrow> bool"
  normalizeEmail :: "string \<Rightarrow> string"
  bcrypt_hash :: "string \<Rightarrow> string"
  jwt_sign :: "string \<Rightarrow> string \<Rightarrow> string"

text \<open>The value of a body field as the validator sees it: a missing field is the empty string.\<close>

definition toString :: "string option \<Rightarrow> string" where
  "toString v = (case v of None \<Rightarrow> [] | Some s \<Rightarrow> s)"

text \<open>
  The regular expression of the password,
  \<^verbatim>\<open>/^(?=.*[a-z])(?=.*[A-Z])(?=.*\d)/\<close>: a look-ahead \<^verbatim>\<open>(?=.*[c])\<close> at the start
  of the string finds a character of the class that no line terminator precedes.
\<close>

definition line_terminator :: "char \<Rightarrow> bool" where
  "line_terminator c = (c = CHR 0x0A \<or> c = CHR 0x0D)"

fun lookahead :: "(char \<Rightarrow> bool) \<Rightarrow> string \<Rightarrow> bool" where
  "lookahead cls [] = False"
| "lookahead cls (c # cs) = (if cls c then True else if line_terminator c then False else lookahead cls cs)"

definition password_pattern :: "string \<Rightarrow> bool" where
  "password_pattern s = (lookahead lower s \<and> lookahead upper s \<and> lookahead digit s)"

text \<open>The messages that the validation chains of the registration collect.\<close>

definition validate_name :: "string option \<Rightarrow> string list" where
  "validate_name v =
     (let s = trim (toString v) in
      (if s = [] then [''Name is required''] else [])
      @ (if length s < 2 then [''Name must be between 2 and 50 characters'']
         else if 50 < length s then [''Name must be between 2 and 50 characters'']
         else []))"

definition validate_email :: "library \<Rightarrow> string option \<Rightarrow> string list" where
  "validate_email lib v =
     (if isEmail lib (toString v) then [] else [''Please provide a valid email''])"

definition validate_password :: "string option \<Rightarrow> string list" where
  "validate_password v =
     (let s = toString v in
      (if length s < 6 then [''Password must be at least 6 characters long''] else [])
      @ (if password_pattern s then []
         else [''Password must contain at least one lowercase letter, one uppercase letter, and one number'']))"

definition register_validation ::
  "library \<Rightarrow> string option \<Rightarrow> string option \<Rightarrow> string option \<Rightarrow> string list" where
  "register_validation lib body_name body_email body_password =
     validate_name body_name @ validate_email lib body_email @ validate_password body_password"

text \<open>\<^verbatim>\<open>sendErrorResponse(res, statusCode, message, errors = null)\<close> of the routes.\<close>

definition sendErrorResponse_route :: "nat \<Rightarrow> string \<Rightarrow> string list option \<Rightarrow> response" where
  "sendErrorResponse_route st msg errs =
     (case errs of None \<Rightarrow> json st False msg | Some es \<Rightarrow> (json st False msg)\<lparr>errors := es\<rparr>)"

text \<open>The answer of \<^verbatim>\<open>asyncHandler\<close> to an exception of the handler it wraps.\<close>

definition asyncHandler_catch :: "env \<Rightarrow> js_error \<Rightarrow> response" where
  "asyncHandler_catch e err =
     (if err_name err = ''ValidationError'' then sendErrorResponse e 400 ''Validation Error'' (Some err)
      else if err_name err = ''CastError'' then sendErrorResponse e 400 ''Invalid ID format'' (Some err)
      else if err_code err = Some 11000 then sendErrorResponse e 400 ''Duplicate entry'' (Some err)
      else sendErrorResponse e 500 ''Server Error'' (Some err))"

text \<open>
  The errors that \<^verbatim>\<open>generateToken\<close> throws; of the stack its first line is kept. The
  payload of the token holds the id as its string.
\<close>

definition Error :: "string \<Rightarrow> js_error" where
  "Error msg = \<lparr>err_name = ''Error'', err_message = msg, err_stack = ''Error: '' @ msg,
     err_code = None\<rparr>"

definition generateToken :: "library \<Rightarrow> env \<Rightarrow> objectId option \<Rightarrow> js_error + string" where
  "generateToken lib e i =
     (case i of
        None \<Rightarrow> Inl (Error ''User ID is required for token generation'')
      | Some uid \<Rightarrow>
          if \<not> truthy (JWT_SECRET e) then Inl (Error ''JWT_SECRET environment variable is not set'')
          else Inr (jwt_sign lib (id_toString uid) (the (JWT_SECRET e))))"

text \<open>\<^verbatim>\<open>User.findOne({ email })\<close>.\<close>

definition findOne_email :: "user list \<Rightarrow> string \<Rightarrow> user option" where
  "findOne_email us m = find (\<lambda>u. email u = m) us"

text \<open>
  \<^verbatim>\<open>POST /api/auth/register\<close>, with its validation chains. After the chains the body
  holds the trimmed name and the normalised e-mail. \<^verbatim>\<open>User.create\<close> throws by a fault,
  which stands for a failure of the database as well as for a rejection by the schema;
  otherwise it stores the user with the hashed password, the default role, the e-mail in
  lower case and the id that the database chooses.
\<close>

definition register ::
  "library \<Rightarrow> env \<Rightarrow> faults \<Rightarrow> db \<Rightarrow> string option \<Rightarrow> string option \<Rightarrow> string option \<Rightarrow> objectId
   \<Rightarrow> response \<times> db" where
  "register lib e flt d body_name body_email body_password new_id =
     (let errs = register_validation lib body_name body_email body_password;
          name_v = trim (toString body_name);
          email_v = normalizeEmail lib (toString body_email);
          password_v = toString body_password
      in if errs \<noteq> [] then (sendErrorResponse_route 400 ''Validation failed'' (Some errs), d)
         else if name_v = [] \<or> email_v = [] \<or> password_v = [] then
           (sendErrorResponse_route 400 ''Name, email, and password are required'' None, d)
         else
           (case flt User_findOne of
              Some err \<Rightarrow> (asyncHandler_catch e err, d)
            | None \<Rightarrow>
                (case findOne_email (users d) email_v of
                   Some existingUser \<Rightarrow>
                     (sendErrorResponse_route 400 ''User already exists with this email'' None, d)
                 | None \<Rightarrow>
                     (case flt User_create of
                        Some err \<Rightarrow> (asyncHandler_catch e err, d)
                      | None \<Rightarrow>
                          (let d1 = d\<lparr>users := users d @
                                  [\<lparr>user_id = new_id, name = name_v, email = toLowerCase email_v,
                                    password = Some (bcrypt_hash lib password_v), role = ''user'',
                                    user_isActive = True\<rparr>]\<rparr>
                           in (case generateToken lib e (Some new_id) of
                                 Inl err \<Rightarrow> (asyncHandler_catch e err, d1)
                               | Inr token \<Rightarrow> (json 201 True ''User registered successfully'', d1)))))))"

section \<open>The routes\<close>

text \<open>
  The routes of the claims, as the routers declare them: the middleware in front of each
  handler. The lookup of \<^verbatim>\<open>protect\<close> and the calls of the handler are separate calls into
  the database, each with its own faults. The messages of the validation chains of a route
  are the parameter \<open>errs\<close>.
\<close>

definition route_putUserRole ::
  "env \<Rightarrow> jwt_verify \<Rightarrow> faults \<Rightarrow> faults \<Rightarrow> db \<Rightarrow> string option \<Rightarrow> string \<Rightarrow> string
   \<Rightarrow> string list \<Rightarrow> response \<times> db" where
  "route_putUserRole e verify flt_auth flt d authorization params_id body_role errs =
     route (protect e verify flt_auth d authorization) (canManageUsers e) d
       (\<lambda>req_user. putUserRole flt d req_user params_id body_role errs)"

definition route_putUserToggleActivation ::
  "env \<Rightarrow> jwt_verify \<Rightarrow> faults \<Rightarrow> faults \<Rightarrow> db \<Rightarrow> string option \<Rightarrow> string \<Rightarrow> string list
   \<Rightarrow> response \<times> db" where
  "route_putUserToggleActivation e verify flt_auth flt d authorization params_id errs =
     route (protect e verify flt_auth d authorization) (canManageUsers e) d
       (\<lambda>req_user. putUserToggleActivation flt d req_user params_id errs)"

definition route_putUserStatus ::
  "env \<Rightarrow> jwt_verify \<Rightarrow> faults \<Rightarrow> faults \<Rightarrow> db \<Rightarrow> string option \<Rightarrow> string \<Rightarrow> bool
   \<Rightarrow> string list \<Rightarrow> response \<times> db" where
  "route_putUserStatus e verify flt_auth flt d authorization params_id body_isActive errs =
     route (protect e verify flt_auth d authorization) (canManageUsers e) d
       (\<lambda>req_user. putUserStatus flt d req_user params_id body_isActive errs)"

definition route_deleteUser ::
  "env \<Rightarrow> jwt_verify \<Rightarrow> faults \<Rightarrow> faults \<Rightarrow> db \<Rightarrow> string option \<Rightarrow> string \<Rightarrow> string list
   \<Rightarrow> response \<times> db" where
  "route_deleteUser e verify flt_auth flt d authorization params_id errs =
     route (protect e verify flt_auth d authorization) (canManageUsers e) d
       (\<lambda>req_user. deleteUser flt d req_user params_id errs)"

definition route_putBulkRoles ::
  "env \<Rightarrow> jwt_verify \<Rightarrow> faults \<Rightarrow> faults \<Rightarrow> db \<Rightarrow> string option \<Rightarrow> string list \<Rightarrow> string
   \<Rightarrow> string list \<Rightarrow> response \<times> db" where
  "route_putBulkRoles e verify flt_auth flt d authorization userIds body_role errs =
     route (protect e verify flt_auth d authorization) (canManageUsers e) d
       (\<lambda>req_user. putBulkRoles flt d req_user userIds body_role errs)"

text \<open>
  \<^verbatim>\<open>POST /api/items\<close>: \<^verbatim>\<open>protect\<close>, \<^verbatim>\<open>canPerformCRUD\<close>, \<^verbatim>\<open>processImageUpload\<close>, the
  validation chains, the handler. The fields of the body are those of the multipart form.
\<close>

definition route_postItem ::
  "(string \<Rightarrow> date) \<Rightarrow> env \<Rightarrow> jwt_verify \<Rightarrow> faults \<Rightarrow> faults \<Rightarrow> world \<Rightarrow> string option
   \<Rightarrow> upload \<Rightarrow> string option \<Rightarrow> string option \<Rightarrow> string option \<Rightarrow> objectId \<Rightarrow> string list
   \<Rightarrow> response \<times> world" where
  "route_postItem parse e verify flt_auth flt w authorization up startDate endDate body_note
     new_id errs =
     route (protect e verify flt_auth (database w) authorization) (canPerformCRUD e) w
       (\<lambda>req_user.
          case processImageUpload up w of
            Inl r \<Rightarrow> (r, w)
          | Inr (uf, w1) \<Rightarrow>
              postItem parse e flt w1 req_user (Some (fst uf)) (Some (snd uf)) startDate endDate
                body_note new_id errs)"

text \<open>
  The body parsers that the application mounts read JSON and URL-encoded bodies. The body
  of a multipart form is read by no middleware in front of the update of an item, so its
  fields are not in \<^verbatim>\<open>req.body\<close>.
\<close>

datatype content = Json | Urlencoded | Multipart

definition body_field :: "content \<Rightarrow> string option \<Rightarrow> string option" where
  "body_field c v = (case c of Json \<Rightarrow> v | Urlencoded \<Rightarrow> v | Multipart \<Rightarrow> None)"

text \<open>
  \<^verbatim>\<open>PUT /api/items/:id\<close>: \<^verbatim>\<open>protect\<close>, \<^verbatim>\<open>canPerformCRUD\<close>, \<^verbatim>\<open>validateImageFile\<close>, the
  validation chains, the handler. No middleware in front of \<^verbatim>\<open>validateImageFile\<close> sets
  \<^verbatim>\<open>req.file\<close>, so it is \<^verbatim>\<open>undefined\<close> there, whatever the request uploads.
\<close>

definition route_putItem ::
  "(string \<Rightarrow> date) \<Rightarrow> env \<Rightarrow> jwt_verify \<Rightarrow> faults \<Rightarrow> faults \<Rightarrow> world \<Rightarrow> string option
   \<Rightarrow> string \<Rightarrow> content \<Rightarrow> upload \<Rightarrow> string option \<Rightarrow> string option \<Rightarrow> string option
   \<Rightarrow> string list \<Rightarrow> response \<times> world" where
  "route_putItem parse e verify flt_auth flt w authorization params_id c up startDate endDate
     body_note errs =
     route (protect e verify flt_auth (database w) authorization) (canPerformCRUD e) w
       (\<lambda>req_user.
          case validateImageFile None up w of
            Inl r \<Rightarrow> (r, w)
          | Inr (uf, w1) \<Rightarrow>
              putItem parse e flt w1 req_user params_id (map_option fst uf) (map_option snd uf)
                (body_field c startDate) (body_field c endDate) (body_field c body_note) errs)"

subsection \<open>Fixtures\<close>

text \<open>A small database and environment on which the handlers are run.\<close>

definition root_user :: user where
  "root_user = \<lparr>user_id = ObjectId ''aaaaaaaaaaaaaaaaaaaaaaaa'', name = ''Root'',
     email = ''root@example.com'', password = Some ''hash0'', role = ''super_admin'',
     user_isActive = True\<rparr>"

definition bob_user :: user where
  "bob_user = \<lparr>user_id = ObjectId ''bbbbbbbbbbbbbbbbbbbbbbbb'', name = ''Bob'',
     email = ''bob@example.com'', password = Some ''hash1'', role = ''user'',
     user_isActive = True\<rparr>"

definition carol_user :: user where
  "carol_user = \<lparr>user_id = ObjectId ''cccccccccccccccccccccccc'', name = ''Carol'',
     email = ''carol@example.com'', password = Some ''hash2'', role = ''user'',
     user_isActive = True\<rparr>"

definition bob_item :: item where
  "bob_item = \<lparr>item_id = ObjectId ''111111111111111111111111'', item_image = ''image-a.png'',
     dateRange_start = 1704067200000, dateRange_end = 1706659200000, item_note = ''Spring sale'',
     createdBy = ObjectId ''bbbbbbbbbbbbbbbbbbbbbbbb'', updatedBy = None, item_isActive = True\<rparr>"

definition carol_item :: item where
  "carol_item = \<lparr>item_id = ObjectId ''222222222222222222222222'', item_image = ''image-b.png'',
     dateRange_start = 1704067200000, dateRange_end = 1704153600000, item_note = ''One day'',
     createdBy = ObjectId ''cccccccccccccccccccccccc'', updatedBy = None, item_isActive = True\<rparr>"

definition ann_user :: user where
  "ann_user = \<lparr>user_id = ObjectId ''dddddddddddddddddddddddd'', name = ''Ann'',
     email = ''ann@example.com'', password = None, role = ''admin'', user_isActive = True\<rparr>"

definition db0 :: db where
  "db0 = \<lparr>users = [root_user, bob_user, carol_user], items = [bob_item, carol_item]\<rparr>"

definition world0 :: world where
  "world0 = \<lparr>database = db0, uploads = {''image-a.png'', ''image-b.png''}\<rparr>"

text \<open>The database with Ann, an admin, registered as well.\<close>

definition db1 :: db where
  "db1 = \<lparr>users = [root_user, bob_user, carol_user, ann_user\<lparr>password := Some ''hash3''\<rparr>],
     items = [bob_item, carol_item]\<rparr>"

definition world1 :: world where
  "world1 = \<lparr>database = db1, uploads = {''image-a.png'', ''image-b.png''}\<rparr>"

text \<open>
  An item whose dates are 150000000 days and one millisecond apart, each 75000000 days
  from the epoch; a date may be as far as 100000000 days from it.
\<close>

definition long_item :: item where
  "long_item = \<lparr>item_id = ObjectId ''444444444444444444444444'', item_image = ''image-d.png'',
     dateRange_start = - 6480000000000000, dateRange_end = 6480000000000001,
     item_note = ''Long'', createdBy = ObjectId ''dddddddddddddddddddddddd'', updatedBy = None,
     item_isActive = True\<rparr>"

text \<open>
  The day number of a date of the Gregorian calendar, counted from 1970-01-01, and the
  time value of its midnight in UTC, which is what \<^verbatim>\<open>new Date\<close> gives for a date-only
  string.
\<close>

definition days_from_civil :: "int \<Rightarrow> int \<Rightarrow> int \<Rightarrow> int" where
  "days_from_civil y m dd =
     (let y1 = (if m \<le> 2 then y - 1 else y);
          era = y1 div 400;
          yoe = y1 - era * 400;
          doy = (153 * (if 2 < m then m - 3 else m + 9) + 2) div 5 + dd - 1;
          doe = yoe * 365 + yoe div 4 - yoe div 100 + doy
      in era * 146097 + doe - 719468)"

definition utc_midnight :: "int \<Rightarrow> int \<Rightarrow> int \<Rightarrow> int" where
  "utc_midnight y m dd = 86400000 * days_from_civil y m dd"

definition fixture_parse :: "string \<Rightarrow> date" where
  "fixture_parse s =
     (if s = ''2024-01-01'' then Some (utc_midnight 2024 1 1)
      else if s = ''2024-01-31'' then Some (utc_midnight 2024 1 31)
      else if s = ''2023-12-31'' then Some (utc_midnight 2023 12 31)
      else None)"

text \<open>A library for the fixtures: every string with an at sign is an e-mail address.\<close>

definition fixture_library :: library where
  "fixture_library = \<lparr>isEmail = (\<lambda>s. CHR ''@'' \<in> set s), normalizeEmail = toLowerCase,
     bcrypt_hash = (\<lambda>s. ''hashed:'' @ s), jwt_sign = (\<lambda>i k. ''token:'' @ i)\<rparr>"

definition production :: env where
  "production = \<lparr>JWT_SECRET = Some ''s3cret'', NODE_ENV = Some ''production''\<rparr>"

definition TokenExpiredError :: js_error where
  "TokenExpiredError = \<lparr>err_name = ''TokenExpiredError'', err_message = ''jwt expired'',
     err_stack = ''TokenExpiredError: jwt expired'', err_code = None\<rparr>"

definition JsonWebTokenError :: js_error where
  "JsonWebTokenError = \<lparr>err_name = ''JsonWebTokenError'', err_message = ''jwt malformed'',
     err_stack = ''JsonWebTokenError: jwt malformed'', err_code = None\<rparr>"

text \<open>
  A verifier for the fixtures: the tokens \<^verbatim>\<open>root\<close>, \<^verbatim>\<open>bob\<close> and \<^verbatim>\<open>ann\<close> are those of
  Root, Bob and Ann, the token \<^verbatim>\<open>old\<close> has expired, every other token is malformed.
\<close>

definition fixture_verify :: jwt_verify where
  "fixture_verify token secret =
     (if token = ''bob'' then Inr (Some ''bbbbbbbbbbbbbbbbbbbbbbbb'')
      else if token = ''root'' then Inr (Some ''aaaaaaaaaaaaaaaaaaaaaaaa'')
      else if token = ''ann'' then Inr (Some ''dddddddddddddddddddddddd'')
      else if token = ''old'' then Inl TokenExpiredError
      else Inl JsonWebTokenError)"

section \<open>The authorization table\<close>

lemma checkRole_allows:
  "\<not> isl (checkRole e roles (Some u)) \<longleftrightarrow> role u \<noteq> [] \<and> roles \<noteq> [] \<and> role u \<in> set roles"
  by (simp add: checkRole_def)

text \<open>
  The role middleware of the backend routes decides as the table says, for each of the
  three roles and each capability.
\<close>

lemma route_guard_matches_table:
  assumes "role u \<in> set the_roles"
  shows "\<not> isl (route_guard c e (Some u)) \<longleftrightarrow> spec_authorize (role u) c"
  using assms
  by (cases c)
     (auto simp: checkRole_allows the_roles_def spec_authorize_def authenticatedUser_def
        canPerformCRUD_def canDelete_def canManageUsers_def)

text \<open>A denial by the role middleware has status 403.\<close>

lemma route_guard_denial_status:
  assumes "role u \<in> set the_roles" and "route_guard c e (Some u) = Inl r"
  shows "status r = 403"
  using assms
  by (cases c)
     (auto simp: checkRole_def the_roles_def authenticatedUser_def canPerformCRUD_def
        canDelete_def canManageUsers_def sendErrorResponse_def json_def split: if_splits)

text \<open>
  The table \<^verbatim>\<open>PERMISSIONS\<close> of the JavaScript frontend decides as the table says, whatever
  the inherited members hold.
\<close>

lemma hasPermissions_matches_table:
  assumes "r \<in> set the_roles"
  shows "hasPermissions inherited (Some r) (Some [permission_name c]) \<longleftrightarrow> spec_authorize r c"
  using assms
  by (cases c)
     (auto simp: the_roles_def hasPermissions_def truthy_def PERMISSIONS_def spec_authorize_def)

text \<open>
  A name that is no permission of the table but an inherited member, as \<^verbatim>\<open>toString\<close>, is
  a permission that every role of the table has.
\<close>

lemma hasPermissions_inherited_member:
  "hasPermissions inherited (Some ''user'') (Some [''toString''])"
  by (simp add: hasPermissions_def truthy_def PERMISSIONS_def object_prototype_keys_def)

text \<open>
  The role middleware \<^verbatim>\<open>canDelete\<close> and the table \<^verbatim>\<open>PERMISSIONS\<close> deny an admin the
  deletion.
\<close>

lemma admin_delete_denied_by_middleware:
  "role u = ''admin'' \<Longrightarrow> isl (canDelete e (Some u))"
  by (simp add: canDelete_def checkRole_def)

lemma admin_delete_denied_by_PERMISSIONS:
  "\<not> hasPermissions inherited (Some ''admin'') (Some [''delete''])"
  by (simp add: hasPermissions_def truthy_def PERMISSIONS_def)

text \<open>
  The TypeScript helper decides as the table says but for one pair: it lets an admin
  delete.
\<close>

lemma hasPermission_differs_in_one_pair:
  assumes "r \<in> set the_roles"
  shows "hasPermission r c \<longleftrightarrow> spec_authorize r c \<or> (r = ''admin'' \<and> c = Delete)"
  using assms
  by (cases c) (auto simp: the_roles_def getRolePermissions_def spec_authorize_def)

text \<open>
  C1. The claim: for every role and capability the decision of every permission-checking
  function is the one of the table, so an admin is never allowed to delete. The
  TypeScript helper \<^verbatim>\<open>getRolePermissions\<close> and the model method
  \<^verbatim>\<open>itemSchema.methods.canDelete\<close> both allow an admin to delete, where the table, the
  role middleware of the routes and the table \<^verbatim>\<open>PERMISSIONS\<close> deny it.
\<close>

theorem admin_delete_allowed_by_helpers:
  "role ann_user = ''admin''
   \<and> hasPermission ''admin'' Delete
   \<and> canDelete_perm (getRolePermissions ''admin'')
   \<and> item_canDelete ann_user
   \<and> \<not> spec_authorize ''admin'' Delete"
  by (simp add: getRolePermissions_def item_canDelete_def spec_authorize_def ann_user_def)

section \<open>Requests through the routes\<close>

text \<open>
  A request of an authenticated user whose role the role middleware accepts reaches the
  handler; a request of an authenticated user of another role ends with status 403 and
  leaves the state as it is.
\<close>

lemma route_reaches_handler:
  assumes "authenticated = Inr u" and "guard (Some u) = Inr ()"
  shows "route authenticated guard s handler = handler u"
  using assms by (simp add: route_def)

lemma super_admin_passes: "role u = ''super_admin'' \<Longrightarrow> canManageUsers e (Some u) = Inr ()"
  by (simp add: canManageUsers_def checkRole_def)

lemma crud_role_passes:
  "role u = ''admin'' \<or> role u = ''super_admin'' \<Longrightarrow> canPerformCRUD e (Some u) = Inr ()"
  by (auto simp: canPerformCRUD_def checkRole_def)

lemma route_forbidden:
  assumes "authenticated = Inr u" and "role u \<in> set the_roles"
    and "\<not> spec_authorize (role u) c"
  shows "status (fst (route authenticated (route_guard c e) s handler)) = 403
       \<and> snd (route authenticated (route_guard c e) s handler) = s"
proof -
  have "isl (route_guard c e (Some u))"
    using assms(2,3) route_guard_matches_table[of u c e] by simp
  then obtain r where r: "route_guard c e (Some u) = Inl r" by (cases "route_guard c e (Some u)") auto
  then have "status r = 403" using assms(2) by (rule route_guard_denial_status[rotated])
  then show ?thesis using assms(1) r by (simp add: route_def)
qed

text \<open>
  The creation of an item by a user of the role \<^verbatim>\<open>user\<close> is forbidden, whatever the
  request holds, and nothing is uploaded.
\<close>

lemma user_cannot_create:
  assumes "protect e verify flt_auth (database w) authorization = Inr u" and "role u = ''user''"
  shows "status (fst (route_postItem parse e verify flt_auth flt w authorization up
           startDate endDate body_note new_id errs)) = 403
       \<and> snd (route_postItem parse e verify flt_auth flt w authorization up
           startDate endDate body_note new_id errs) = w"
proof -
  have "role u \<in> set the_roles" and "\<not> spec_authorize (role u) Create"
    using assms(2) by (simp_all add: the_roles_def spec_authorize_def)
  from route_forbidden[OF assms(1) this, of e w] show ?thesis
    by (simp add: route_postItem_def)
qed

text \<open>
  A user administration request of a user who is no super admin is forbidden, also when
  its target is the user.
\<close>

lemma not_super_admin_forbidden:
  assumes "protect e verify flt_auth d authorization = Inr u"
    and "role u = ''user'' \<or> role u = ''admin''"
  shows "status (fst (route_putUserRole e verify flt_auth flt d authorization i r errs)) = 403
       \<and> snd (route_putUserRole e verify flt_auth flt d authorization i r errs) = d"
proof -
  have "role u \<in> set the_roles" and "\<not> spec_authorize (role u) ManageUsers"
    using assms(2) by (auto simp: the_roles_def spec_authorize_def)
  from route_forbidden[OF assms(1) this, of e d] show ?thesis
    by (simp add: route_putUserRole_def)
qed

text \<open>The requests of the fixtures that \<^verbatim>\<open>protect\<close> accepts.\<close>

lemma bearer_old: "bearer_token (Some ''Bearer old'') = Some ''old''"
  by (simp add: bearer_token_def startsWith_def index_def)

lemma bearer_bob: "bearer_token (Some ''Bearer bob'') = Some ''bob''"
  by (simp add: bearer_token_def startsWith_def index_def)

lemma bearer_root: "bearer_token (Some ''Bearer root'') = Some ''root''"
  by (simp add: bearer_token_def startsWith_def index_def)

lemma bearer_ann: "bearer_token (Some ''Bearer ann'') = Some ''ann''"
  by (simp add: bearer_token_def startsWith_def index_def)

lemma bearer_junk: "bearer_token (Some ''Bearer junk'') = Some ''junk''"
  by (simp add: bearer_token_def startsWith_def index_def)

lemma cast_root: "castObjectId ''aaaaaaaaaaaaaaaaaaaaaaaa'' = Some (ObjectId ''aaaaaaaaaaaaaaaaaaaaaaaa'')"
  by (simp add: castObjectId_def hexDigit_def digit_def toLowerCase_def)

lemma cast_ROOT: "castObjectId ''AAAAAAAAAAAAAAAAAAAAAAAA'' = Some (ObjectId ''aaaaaaaaaaaaaaaaaaaaaaaa'')"
  by (simp add: castObjectId_def hexDigit_def digit_def toLowerCase_def)

lemma cast_bob: "castObjectId ''bbbbbbbbbbbbbbbbbbbbbbbb'' = Some (ObjectId ''bbbbbbbbbbbbbbbbbbbbbbbb'')"
  by (simp add: castObjectId_def hexDigit_def digit_def toLowerCase_def)

lemma cast_ann: "castObjectId ''dddddddddddddddddddddddd'' = Some (ObjectId ''dddddddddddddddddddddddd'')"
  by (simp add: castObjectId_def hexDigit_def digit_def toLowerCase_def)

lemma cast_carol_item:
  "castObjectId ''222222222222222222222222'' = Some (ObjectId ''222222222222222222222222'')"
  by (simp add: castObjectId_def hexDigit_def digit_def toLowerCase_def)

lemma bob_accepted:
  "protect production fixture_verify no_faults db0 (Some ''Bearer bob'')
   = Inr (select_no_password bob_user)"
  by (simp add: protect_def bearer_bob production_def fixture_verify_def no_faults_def truthy_def
      db0_def findById_def cast_bob root_user_def bob_user_def carol_user_def)

lemma root_accepted:
  "protect production fixture_verify no_faults db0 (Some ''Bearer root'')
   = Inr (select_no_password root_user)"
  by (simp add: protect_def bearer_root production_def fixture_verify_def no_faults_def truthy_def
      db0_def findById_def cast_root root_user_def bob_user_def carol_user_def)

lemma ann_accepted:
  "protect production fixture_verify no_faults db1 (Some ''Bearer ann'')
   = Inr ann_user"
  by (simp add: protect_def bearer_ann production_def fixture_verify_def no_faults_def truthy_def
      db1_def findById_def cast_ann root_user_def bob_user_def carol_user_def ann_user_def
      select_no_password_def)

section \<open>Self-protection of the administrator\<close>

text \<open>
  C2. A super admin sends a user administration request whose target is the string of the
  own id, as \<^verbatim>\<open>req.user._id.toString()\<close> gives it: a change of role, a toggle or a
  setting of the activation status, a deletion, or a bulk update of roles whose list holds
  that string anywhere. The request is rejected as a whole with status 400 and the database
  is left as it was. The status is the one of a failed validation, not the status 403 with
  which the role middleware forbids a request.
\<close>

theorem self_administration_rejected:
  assumes "protect e verify flt_auth d authorization = Inr actor"
    and "role actor = ''super_admin''"
  shows "status (fst (route_putUserRole e verify flt_auth flt d authorization
                        (id_toString (user_id actor)) r errs)) = 400
       \<and> snd (route_putUserRole e verify flt_auth flt d authorization
                 (id_toString (user_id actor)) r errs) = d
       \<and> status (fst (route_putUserToggleActivation e verify flt_auth flt d authorization
                        (id_toString (user_id actor)) errs)) = 400
       \<and> snd (route_putUserToggleActivation e verify flt_auth flt d authorization
                 (id_toString (user_id actor)) errs) = d
       \<and> status (fst (route_putUserStatus e verify flt_auth flt d authorization
                        (id_toString (user_id actor)) b errs)) = 400
       \<and> snd (route_putUserStatus e verify flt_auth flt d authorization
                 (id_toString (user_id actor)) b errs) = d
       \<and> status (fst (route_deleteUser e verify flt_auth flt d authorization
                        (id_toString (user_id actor)) errs)) = 400
       \<and> snd (route_deleteUser e verify flt_auth flt d authorization
                 (id_toString (user_id actor)) errs) = d
       \<and> (id_toString (user_id actor) \<in> set userIds \<longrightarrow>
            status (fst (route_putBulkRoles e verify flt_auth flt d authorization userIds r errs))
              = 400
            \<and> snd (route_putBulkRoles e verify flt_auth flt d authorization userIds r errs) = d)"
proof -
  note g = super_admin_passes[OF assms(2), of e]
  have 1: "route_putUserRole e verify flt_auth flt d authorization i r errs
           = putUserRole flt d actor i r errs" for i
    by (simp add: route_putUserRole_def route_def assms(1) g)
  have 2: "route_putUserToggleActivation e verify flt_auth flt d authorization i errs
           = putUserToggleActivation flt d actor i errs" for i
    by (simp add: route_putUserToggleActivation_def route_def assms(1) g)
  have 3: "route_putUserStatus e verify flt_auth flt d authorization i b errs
           = putUserStatus flt d actor i b errs" for i
    by (simp add: route_putUserStatus_def route_def assms(1) g)
  have 4: "route_deleteUser e verify flt_auth flt d authorization i errs
           = deleteUser flt d actor i errs" for i
    by (simp add: route_deleteUser_def route_def assms(1) g)
  have 5: "route_putBulkRoles e verify flt_auth flt d authorization userIds r errs
           = putBulkRoles flt d actor userIds r errs"
    by (simp add: route_putBulkRoles_def route_def assms(1) g)
  show ?thesis
    unfolding 1 2 3 4 5
    by (simp add: putUserRole_def putUserToggleActivation_def putUserStatus_def deleteUser_def
        putBulkRoles_def validation_failed_def json_def)
qed

lemma root_is_super_admin: "role (select_no_password root_user) = ''super_admin''"
  by (simp add: select_no_password_def root_user_def)

lemma root_id_string:
  "id_toString (user_id (select_no_password root_user)) = ''aaaaaaaaaaaaaaaaaaaaaaaa''"
  by (simp add: select_no_password_def root_user_def)

theorem self_administration_rejected_witness:
  "protect production fixture_verify no_faults db0 (Some ''Bearer root'')
     = Inr (select_no_password root_user)
   \<and> role (select_no_password root_user) = ''super_admin''
   \<and> id_toString (user_id (select_no_password root_user)) = ''aaaaaaaaaaaaaaaaaaaaaaaa''
   \<and> ''aaaaaaaaaaaaaaaaaaaaaaaa'' \<in> set [''bbbbbbbbbbbbbbbbbbbbbbbb'', ''aaaaaaaaaaaaaaaaaaaaaaaa'']
   \<and> status (fst (route_putUserRole production fixture_verify no_faults no_faults db0
        (Some ''Bearer root'') ''aaaaaaaaaaaaaaaaaaaaaaaa'' ''admin'' [])) = 400
   \<and> snd (route_putUserRole production fixture_verify no_faults no_faults db0
        (Some ''Bearer root'') ''aaaaaaaaaaaaaaaaaaaaaaaa'' ''admin'' []) = db0
   \<and> status (fst (route_putUserToggleActivation production fixture_verify no_faults no_faults db0
        (Some ''Bearer root'') ''aaaaaaaaaaaaaaaaaaaaaaaa'' [])) = 400
   \<and> snd (route_putUserToggleActivation production fixture_verify no_faults no_faults db0
        (Some ''Bearer root'') ''aaaaaaaaaaaaaaaaaaaaaaaa'' []) = db0
   \<and> status (fst (route_putUserStatus production fixture_verify no_faults no_faults db0
        (Some ''Bearer root'') ''aaaaaaaaaaaaaaaaaaaaaaaa'' False [])) = 400
   \<and> snd (route_putUserStatus production fixture_verify no_faults no_faults db0
        (Some ''Bearer root'') ''aaaaaaaaaaaaaaaaaaaaaaaa'' False []) = db0
   \<and> status (fst (route_deleteUser production fixture_verify no_faults no_faults db0
        (Some ''Bearer root'') ''aaaaaaaaaaaaaaaaaaaaaaaa'' [])) = 400
   \<and> snd (route_deleteUser production fixture_verify no_faults no_faults db0
        (Some ''Bearer root'') ''aaaaaaaaaaaaaaaaaaaaaaaa'' []) = db0
   \<and> status (fst (route_putBulkRoles production fixture_verify no_faults no_faults db0
        (Some ''Bearer root'') [''bbbbbbbbbbbbbbbbbbbbbbbb'', ''aaaaaaaaaaaaaaaaaaaaaaaa'']
        ''admin'' [])) = 400
   \<and> snd (route_putBulkRoles production fixture_verify no_faults no_faults db0
        (Some ''Bearer root'') [''bbbbbbbbbbbbbbbbbbbbbbbb'', ''aaaaaaaaaaaaaaaaaaaaaaaa'']
        ''admin'' []) = db0"
  using self_administration_rejected[where e = production and verify = fixture_verify
      and flt_auth = no_faults and flt = no_faults and d = db0
      and authorization = "Some ''Bearer root''" and actor = "select_no_password root_user"
      and r = "''admin''" and errs = "[]" and b = False
      and userIds = "[''bbbbbbbbbbbbbbbbbbbbbbbb'', ''aaaaaaaaaaaaaaaaaaaaaaaa'']",
      OF root_accepted root_is_super_admin]
  by (simp add: root_accepted root_is_super_admin root_id_string)

lemma route_role_root:
  "route_putUserRole production fixture_verify no_faults no_faults db0 (Some ''Bearer root'') i r errs
   = putUserRole no_faults db0 (select_no_password root_user) i r errs"
  by (simp add: route_putUserRole_def route_def root_accepted super_admin_passes[OF root_is_super_admin])

lemma route_delete_root:
  "route_deleteUser production fixture_verify no_faults no_faults db0 (Some ''Bearer root'') i errs
   = deleteUser no_faults db0 (select_no_password root_user) i errs"
  by (simp add: route_deleteUser_def route_def root_accepted super_admin_passes[OF root_is_super_admin])

lemma route_bulk_root:
  "route_putBulkRoles production fixture_verify no_faults no_faults db0 (Some ''Bearer root'') ids r errs
   = putBulkRoles no_faults db0 (select_no_password root_user) ids r errs"
  by (simp add: route_putBulkRoles_def route_def root_accepted super_admin_passes[OF root_is_super_admin])

text \<open>
  The claim asks for the kind Forbidden. The rejection of a change of the own role has the
  kind of a failed validation, and so has the rejection of a bulk update that lists the
  acting user.
\<close>

theorem self_administration_not_forbidden:
  "protect production fixture_verify no_faults db0 (Some ''Bearer root'')
     = Inr (select_no_password root_user)
   \<and> role (select_no_password root_user) = ''super_admin''
   \<and> id_toString (user_id (select_no_password root_user)) = ''aaaaaaaaaaaaaaaaaaaaaaaa''
   \<and> kind_of_status (status (fst (route_putUserRole production fixture_verify no_faults no_faults db0
        (Some ''Bearer root'') ''aaaaaaaaaaaaaaaaaaaaaaaa'' ''admin'' []))) = Some ValidationFailed
   \<and> kind_of_status (status (fst (route_putUserRole production fixture_verify no_faults no_faults db0
        (Some ''Bearer root'') ''aaaaaaaaaaaaaaaaaaaaaaaa'' ''admin'' []))) \<noteq> Some Forbidden
   \<and> kind_of_status (status (fst (route_putBulkRoles production fixture_verify no_faults no_faults
        db0 (Some ''Bearer root'') [''bbbbbbbbbbbbbbbbbbbbbbbb'', ''aaaaaaaaaaaaaaaaaaaaaaaa'']
        ''admin'' []))) \<noteq> Some Forbidden"
  by (simp add: root_accepted root_is_super_admin root_id_string route_role_root route_bulk_root
      putUserRole_def putBulkRoles_def json_def kind_of_status_def)

text \<open>
  The test that protects the acting user compares strings, and the lookup casts the
  parameter. The id of Root written in upper case is another string and the same id: the
  request passes the test, and Root takes the own role away, or deletes the own account.
\<close>

lemma own_id_in_upper_case_changes_own_role:
  "route_putUserRole production fixture_verify no_faults no_faults db0 (Some ''Bearer root'')
     ''AAAAAAAAAAAAAAAAAAAAAAAA'' ''user'' []
   = (json 200 True ''User role updated to user successfully'',
      db0\<lparr>users := [root_user\<lparr>role := ''user''\<rparr>, bob_user, carol_user]\<rparr>)"
  unfolding route_role_root
  by (simp add: putUserRole_def no_faults_def cast_ROOT findById_def select_no_password_def
      db0_def root_user_def bob_user_def carol_user_def role_enum_def update_user_def)

lemma own_id_in_upper_case_deletes_own_account:
  "route_deleteUser production fixture_verify no_faults no_faults db0 (Some ''Bearer root'')
     ''AAAAAAAAAAAAAAAAAAAAAAAA'' []
   = (json 200 True ''User account deleted successfully'',
      db0\<lparr>users := [root_user\<lparr>user_isActive := False\<rparr>, bob_user, carol_user]\<rparr>)"
  unfolding route_delete_root
  by (simp add: deleteUser_def no_faults_def cast_ROOT findById_def select_no_password_def
      db0_def root_user_def bob_user_def carol_user_def update_user_def deactivate_items_of_def
      bob_item_def carol_item_def Let_def)

section \<open>Deactivated users and rejected tokens\<close>

lemma findById_update_user:
  assumes "\<And>x. user_id (f x) = user_id x"
  shows "findById (update_user j f us) i
         = map_option (\<lambda>u. if user_id u = j then f u else u) (findById us i)"
  using assms by (induction us) (auto simp: findById_def update_user_def)

lemma findById_cast: "findById us i = Some u \<Longrightarrow> castObjectId i = Some (user_id u)"
  by (induction us) (auto simp: findById_def split: if_splits)

lemma findById_after_update:
  assumes "findById us i = Some u" and "\<And>x. user_id (f x) = user_id x"
  shows "findById (update_user (user_id u) f us) i = Some (f u)"
  using assms by (simp add: findById_update_user)

lemma protect_deactivated:
  assumes "bearer_token h = Some tok" and "tok \<noteq> []"
    and "JWT_SECRET e = Some sec" and "sec \<noteq> []"
    and "verify tok sec = Inr (Some uid)" and "uid \<noteq> []"
    and "flt User_findById = None"
    and "findById (users d) uid = Some u" and "\<not> user_isActive u"
  shows "protect e verify flt d h = Inl (json 401 False ''User account is deactivated.'')"
  using assms findById_cast[of "users d" uid u]
  by (simp add: protect_def truthy_def sendErrorResponse_def)

lemma putUserStatus_deactivates:
  assumes "putUserStatus flt1 d actor uid False errs = (r, d')" and "status r = 200"
  shows "\<exists>u. findById (users d') uid = Some u \<and> \<not> user_isActive u"
  using assms
  by (auto simp: putUserStatus_def validation_failed_def json_def findById_after_update
      split: if_splits option.splits)

lemma putUserToggleActivation_deactivates:
  assumes "putUserToggleActivation flt1 d actor uid errs = (r, d')" and "status r = 200"
    and "findById (users d) uid = Some u0" and "user_isActive u0"
  shows "\<exists>u. findById (users d') uid = Some u \<and> \<not> user_isActive u"
  using assms
  by (auto simp: putUserToggleActivation_def validation_failed_def json_def findById_after_update
      split: if_splits option.splits)

lemma deleteUser_deactivates:
  assumes "deleteUser flt1 d actor uid errs = (r, d')" and "status r = 200"
  shows "\<exists>u. findById (users d') uid = Some u \<and> \<not> user_isActive u"
  using assms
  by (auto simp: deleteUser_def validation_failed_def json_def findById_after_update Let_def
      split: if_splits option.splits)

text \<open>
  C3. A request presents a token that the verifier accepts and that names the user
  \<open>uid\<close>, and the lookup of the user does not throw. When the stored user is inactive,
  \<^verbatim>\<open>protect\<close> answers with status 401, the kind Unauthenticated, and attaches no user.
  This holds in the database that a successful deactivation leaves (by the status route,
  by the toggle of an active user, or by the deletion of the user): the next request with
  the token is rejected.
\<close>

theorem deactivated_user_rejected:
  assumes "bearer_token h = Some tok" and "tok \<noteq> []"
    and "JWT_SECRET e = Some sec" and "sec \<noteq> []"
    and "verify tok sec = Inr (Some uid)" and "uid \<noteq> []"
    and "flt User_findById = None"
  shows "(findById (users d) uid = Some u \<and> \<not> user_isActive u \<longrightarrow>
            protect e verify flt d h = Inl (json 401 False ''User account is deactivated.'')
            \<and> kind_of_status (status (json 401 False ''User account is deactivated.''))
                = Some Unauthenticated)
       \<and> (putUserStatus flt1 d0 actor uid False errs = (r, d1) \<and> status r = 200 \<longrightarrow>
            protect e verify flt d1 h = Inl (json 401 False ''User account is deactivated.''))
       \<and> (putUserToggleActivation flt1 d0 actor uid errs = (r, d1) \<and> status r = 200
            \<and> findById (users d0) uid = Some u0 \<and> user_isActive u0 \<longrightarrow>
            protect e verify flt d1 h = Inl (json 401 False ''User account is deactivated.''))
       \<and> (deleteUser flt1 d0 actor uid errs = (r, d1) \<and> status r = 200 \<longrightarrow>
            protect e verify flt d1 h = Inl (json 401 False ''User account is deactivated.''))"
proof (intro conjI impI)
  assume "findById (users d) uid = Some u \<and> \<not> user_isActive u"
  then show "protect e verify flt d h = Inl (json 401 False ''User account is deactivated.'')"
    using assms by (simp add: protect_deactivated)
  show "kind_of_status (status (json 401 False ''User account is deactivated.''))
                = Some Unauthenticated"
    by (simp add: json_def kind_of_status_def)
next
  assume "putUserStatus flt1 d0 actor uid False errs = (r, d1) \<and> status r = 200"
  then obtain v where "findById (users d1) uid = Some v" and "\<not> user_isActive v"
    using putUserStatus_deactivates by blast
  then show "protect e verify flt d1 h = Inl (json 401 False ''User account is deactivated.'')"
    using assms by (simp add: protect_deactivated)
next
  assume "putUserToggleActivation flt1 d0 actor uid errs = (r, d1) \<and> status r = 200
            \<and> findById (users d0) uid = Some u0 \<and> user_isActive u0"
  then obtain v where "findById (users d1) uid = Some v" and "\<not> user_isActive v"
    using putUserToggleActivation_deactivates by blast
  then show "protect e verify flt d1 h = Inl (json 401 False ''User account is deactivated.'')"
    using assms by (simp add: protect_deactivated)
next
  assume "deleteUser flt1 d0 actor uid errs = (r, d1) \<and> status r = 200"
  then obtain v where "findById (users d1) uid = Some v" and "\<not> user_isActive v"
    using deleteUser_deactivates by blast
  then show "protect e verify flt d1 h = Inl (json 401 False ''User account is deactivated.'')"
    using assms by (simp add: protect_deactivated)
qed

lemma status_bob_inactive:
  "putUserStatus no_faults db0 root_user ''bbbbbbbbbbbbbbbbbbbbbbbb'' False []
   = (json 200 True ''User account deactivated successfully'',
      db0\<lparr>users := [root_user, bob_user\<lparr>user_isActive := False\<rparr>, carol_user]\<rparr>)"
  by (simp add: putUserStatus_def no_faults_def db0_def findById_def cast_bob update_user_def
      root_user_def bob_user_def carol_user_def)

lemma status_bob_ok: "status (fst (putUserStatus no_faults db0 root_user ''bbbbbbbbbbbbbbbbbbbbbbbb'' False [])) = 200"
  by (simp add: status_bob_inactive json_def)

text \<open>
  Bob's token is accepted while Bob is active, and rejected in the database that the
  deactivation of Bob by the administrator leaves.
\<close>

theorem deactivated_user_rejected_witness:
  "bearer_token (Some ''Bearer bob'') = Some ''bob''
   \<and> JWT_SECRET production = Some ''s3cret''
   \<and> fixture_verify ''bob'' ''s3cret'' = Inr (Some ''bbbbbbbbbbbbbbbbbbbbbbbb'')
   \<and> no_faults User_findById = None
   \<and> protect production fixture_verify no_faults db0 (Some ''Bearer bob'')
     = Inr (select_no_password bob_user)
   \<and> status (fst (putUserStatus no_faults db0 root_user ''bbbbbbbbbbbbbbbbbbbbbbbb'' False [])) = 200
   \<and> protect production fixture_verify no_faults
        (snd (putUserStatus no_faults db0 root_user ''bbbbbbbbbbbbbbbbbbbbbbbb'' False [])) (Some ''Bearer bob'')
     = Inl (json 401 False ''User account is deactivated.'')"
proof -
  have s: "JWT_SECRET production = Some ''s3cret''" by (simp add: production_def)
  have v: "fixture_verify ''bob'' ''s3cret'' = Inr (Some ''bbbbbbbbbbbbbbbbbbbbbbbb'')" by (simp add: fixture_verify_def)
  have f: "no_faults User_findById = None" by (simp add: no_faults_def)
  show ?thesis
    using deactivated_user_rejected[where h = "Some ''Bearer bob''" and tok = "''bob''"
      and e = production and sec = "''s3cret''" and verify = fixture_verify and uid = "''bbbbbbbbbbbbbbbbbbbbbbbb''"
      and flt = no_faults and ?flt1.0 = no_faults and ?d0.0 = db0 and actor = root_user
      and errs = "[]" and r = "fst (putUserStatus no_faults db0 root_user ''bbbbbbbbbbbbbbbbbbbbbbbb'' False [])"
      and ?d1.0 = "snd (putUserStatus no_faults db0 root_user ''bbbbbbbbbbbbbbbbbbbbbbbb'' False [])"]
    by (simp add: bearer_bob s v f bob_accepted status_bob_ok)
qed

text \<open>
  C6. A request whose token the verifier rejects, whether the token has expired, is
  malformed or has a wrong signature, is answered with status 401 and the message
  \<^verbatim>\<open>Invalid or expired token\<close>. Outside the development mode the response does not depend
  on the error of the verifier, so the caller cannot tell an expired token from an invalid
  one; in the development mode the response also carries the message of the error.
\<close>

theorem invalid_or_expired_rejected_alike:
  assumes "bearer_token h = Some tok" and "tok \<noteq> []"
    and "JWT_SECRET e = Some sec" and "sec \<noteq> []"
    and "verify tok sec = Inl err"
  shows "\<exists>r. protect e verify flt d h = Inl r \<and> status r = 401
            \<and> kind_of_status (status r) = Some Unauthenticated
            \<and> message r = ''Invalid or expired token''
            \<and> (NODE_ENV e \<noteq> Some ''development'' \<longrightarrow>
                 r = json 401 False ''Invalid or expired token'')
            \<and> (NODE_ENV e = Some ''development'' \<longrightarrow>
                 error r = Some (err_message err) \<and> stack r = Some (err_stack err))"
  using assms
  by (simp add: protect_def truthy_def sendErrorResponse_def json_def kind_of_status_def)

theorem invalid_or_expired_rejected_alike_witness:
  "bearer_token (Some ''Bearer old'') = Some ''old''
   \<and> JWT_SECRET production = Some ''s3cret''
   \<and> fixture_verify ''old'' ''s3cret'' = Inl TokenExpiredError
   \<and> NODE_ENV production \<noteq> Some ''development''
   \<and> protect production fixture_verify no_faults db0 (Some ''Bearer old'')
     = Inl (json 401 False ''Invalid or expired token'')"
proof -
  have s: "JWT_SECRET production = Some ''s3cret''" by (simp add: production_def)
  have v: "fixture_verify ''old'' ''s3cret'' = Inl TokenExpiredError"
    by (simp add: fixture_verify_def)
  have n: "NODE_ENV production \<noteq> Some ''development''" by (simp add: production_def)
  have "\<exists>r. protect production fixture_verify no_faults db0 (Some ''Bearer old'') = Inl r
          \<and> r = json 401 False ''Invalid or expired token''"
    using invalid_or_expired_rejected_alike[where h = "Some ''Bearer old''" and tok = "''old''"
      and e = production and sec = "''s3cret''" and verify = fixture_verify
      and err = TokenExpiredError and flt = no_faults and d = db0, OF bearer_old _ s _ v] n
    by auto
  then show ?thesis using s v n by (simp add: bearer_old)
qed

text \<open>
  The claim asks for kinds that the caller can tell apart. In production an expired token
  and a malformed token get the same response.
\<close>

theorem expired_and_malformed_indistinguishable:
  "fixture_verify ''old'' ''s3cret'' = Inl TokenExpiredError
   \<and> fixture_verify ''junk'' ''s3cret'' = Inl JsonWebTokenError
   \<and> TokenExpiredError \<noteq> JsonWebTokenError
   \<and> protect production fixture_verify no_faults db0 (Some ''Bearer old'')
     = protect production fixture_verify no_faults db0 (Some ''Bearer junk'')"
  by (simp add: fixture_verify_def TokenExpiredError_def JsonWebTokenError_def protect_def
      production_def bearer_old bearer_junk truthy_def sendErrorResponse_def)

section \<open>The deletion of a user\<close>

lemma update_user_ids:
  "(\<And>x. user_id (f x) = user_id x) \<Longrightarrow> map user_id (update_user i f us) = map user_id us"
  by (induction us) (auto simp: update_user_def)

lemma deactivate_items_ids: "map item_id (deactivate_items_of i its) = map item_id its"
  by (induction its) (auto simp: deactivate_items_of_def)

lemma deactivate_items_inactive:
  assumes a: "x \<in> set (deactivate_items_of t its)" and b: "createdBy x = t"
  shows "\<not> item_isActive x"
proof -
  from a have "x \<in> (\<lambda>y. if createdBy y = t then y\<lparr>item_isActive := False\<rparr> else y) ` set its"
    unfolding deactivate_items_of_def by (simp only: set_map)
  then obtain y where x: "x = (if createdBy y = t then y\<lparr>item_isActive := False\<rparr> else y)"
    by (rule imageE)
  show ?thesis
  proof (cases "createdBy y = t")
    case True
    then show ?thesis using x by simp
  next
    case False
    then show ?thesis using x b by simp
  qed
qed

lemma deleteUser_success:
  assumes "deleteUser flt d actor target errs = (r, d')" and "status r = 200"
  shows "\<exists>u. findById (users d) target = Some u
             \<and> users d' = update_user (user_id u) (\<lambda>x. x\<lparr>user_isActive := False\<rparr>) (users d)
             \<and> items d' = deactivate_items_of (user_id u) (items d)"
  using assms
  by (auto simp: deleteUser_def validation_failed_def json_def Let_def
      split: if_splits option.splits)

text \<open>
  C7. After a successful deletion of a user, the stored user is inactive and every item
  that the user created is inactive; the user and item documents are all still there. The
  target of the request is a string, and the user and the creator of an item are the id
  to which it is cast.
\<close>

theorem deleteUser_cascades:
  assumes "deleteUser flt d actor target errs = (r, d')" and "status r = 200"
  shows "(\<exists>u. findById (users d') target = Some u \<and> \<not> user_isActive u)
       \<and> (\<forall>i \<in> set (items d'). castObjectId target = Some (createdBy i) \<longrightarrow> \<not> item_isActive i)
       \<and> map user_id (users d') = map user_id (users d)
       \<and> map item_id (items d') = map item_id (items d)"
proof -
  obtain t where t: "findById (users d) target = Some t"
    and s1: "users d' = update_user (user_id t) (\<lambda>x. x\<lparr>user_isActive := False\<rparr>) (users d)"
    and s2: "items d' = deactivate_items_of (user_id t) (items d)"
    using deleteUser_success[OF assms] by blast
  have c: "castObjectId target = Some (user_id t)" using t by (rule findById_cast)
  have 1: "\<exists>u. findById (users d') target = Some u \<and> \<not> user_isActive u"
    using assms by (rule deleteUser_deactivates)
  have 2: "\<forall>i \<in> set (items d'). castObjectId target = Some (createdBy i) \<longrightarrow> \<not> item_isActive i"
    unfolding s2 c using deactivate_items_inactive[of _ "user_id t" "items d"] by auto
  have 3: "map user_id (users d') = map user_id (users d)"
    unfolding s1 by (rule update_user_ids) simp
  have 4: "map item_id (items d') = map item_id (items d)"
    unfolding s2 by (rule deactivate_items_ids)
  from 1 2 3 4 show ?thesis by (intro conjI)
qed

lemma delete_bob:
  "deleteUser no_faults db0 root_user ''bbbbbbbbbbbbbbbbbbbbbbbb'' []
   = (json 200 True ''User account deleted successfully'',
      \<lparr>users = [root_user, bob_user\<lparr>user_isActive := False\<rparr>, carol_user],
       items = [bob_item\<lparr>item_isActive := False\<rparr>, carol_item]\<rparr>)"
  by (simp add: deleteUser_def no_faults_def db0_def findById_def cast_bob update_user_def
      root_user_def bob_user_def carol_user_def deactivate_items_of_def bob_item_def carol_item_def
      Let_def)

theorem deleteUser_cascades_witness:
  "status (fst (deleteUser no_faults db0 root_user ''bbbbbbbbbbbbbbbbbbbbbbbb'' [])) = 200
   \<and> (\<exists>u. findById (users (snd (deleteUser no_faults db0 root_user ''bbbbbbbbbbbbbbbbbbbbbbbb'' []))) ''bbbbbbbbbbbbbbbbbbbbbbbb'' = Some u
          \<and> \<not> user_isActive u)
   \<and> list_all (\<lambda>i. castObjectId ''bbbbbbbbbbbbbbbbbbbbbbbb'' \<noteq> Some (createdBy i) \<or> \<not> item_isActive i)
        (items (snd (deleteUser no_faults db0 root_user ''bbbbbbbbbbbbbbbbbbbbbbbb'' [])))
   \<and> map user_id (users (snd (deleteUser no_faults db0 root_user ''bbbbbbbbbbbbbbbbbbbbbbbb'' []))) = map user_id (users db0)
   \<and> map item_id (items (snd (deleteUser no_faults db0 root_user ''bbbbbbbbbbbbbbbbbbbbbbbb'' []))) = map item_id (items db0)"
proof -
  have ok: "status (fst (deleteUser no_faults db0 root_user ''bbbbbbbbbbbbbbbbbbbbbbbb'' [])) = 200"
    by (simp add: delete_bob json_def)
  show ?thesis
    using deleteUser_cascades[where flt = no_faults and d = db0 and actor = root_user
      and target = "''bbbbbbbbbbbbbbbbbbbbbbbb''" and errs = "[]"
      and r = "fst (deleteUser no_faults db0 root_user ''bbbbbbbbbbbbbbbbbbbbbbbb'' [])"
      and d' = "snd (deleteUser no_faults db0 root_user ''bbbbbbbbbbbbbbbbbbbbbbbb'' [])", OF _ ok]
    by (simp add: ok list_all_iff)
qed

section \<open>The bulk update of roles\<close>

lemma bulk_filter_eq: "bulk_filter userIds req_user = [(''_id'', Ne (user_id req_user))]"
  by (simp add: bulk_filter_def object_literal_def)

text \<open>
  C8. The claim: a bulk update of roles that passes the self-protection check changes the
  role of the listed users only. The filter object of the handler names the property
  \<^verbatim>\<open>_id\<close> twice, so only the second condition is left, and the update reaches every user
  but the acting one: Carol, who is not listed, becomes an admin.
\<close>

theorem bulk_update_changes_unlisted_user:
  "putBulkRoles no_faults db0 root_user [''bbbbbbbbbbbbbbbbbbbbbbbb''] ''admin'' []
   = (json 200 True ''2 user roles updated to admin successfully'',
      db0\<lparr>users := [root_user, bob_user\<lparr>role := ''admin''\<rparr>, carol_user\<lparr>role := ''admin''\<rparr>]\<rparr>)
   \<and> Some (user_id carol_user) \<notin> set (map castObjectId [''bbbbbbbbbbbbbbbbbbbbbbbb''])
   \<and> role carol_user = ''user''"
  by (simp add: putBulkRoles_def no_faults_def bulk_filter_eq cast_bob db0_def root_user_def
      bob_user_def carol_user_def updateMany_role_def modifiedCount_def selects_def)

section \<open>The date range of an item\<close>




lemma cleanup_none: "cleanup flt None w = w"
  by (simp add: cleanup_def)


lemma cleanup_failed_unlink:
  assumes "flt Fs_unlinkSync \<noteq> None"
  shows "cleanup flt f w = w"
  using assms by (cases f) (auto simp: cleanup_def deleteUploadedFile_def)



text \<open>
  The requests of an admin or a super admin reach the upload middleware and the handlers
  of the items. The update of an item gets no uploaded file.
\<close>

lemma route_postItem_stored:
  assumes "protect e verify flt_auth (database w) authorization = Inr u"
    and "role u = ''admin'' \<or> role u = ''super_admin''"
  shows "route_postItem parse e verify flt_auth flt w authorization (Stored fn mt) startDate
           endDate nt new_id errs
         = postItem parse e flt (w\<lparr>uploads := insert fn (uploads w)\<rparr>) u (Some fn)
             (Some \<lparr>mimetype = mt, buffer_base64 = None\<rparr>) startDate endDate nt new_id errs"
  using assms(1) crud_role_passes[OF assms(2), of e]
  by (simp add: route_postItem_def route_def processImageUpload_def)

lemma route_postItem_no_file:
  assumes "protect e verify flt_auth (database w) authorization = Inr u"
    and "role u = ''admin'' \<or> role u = ''super_admin''"
  shows "route_postItem parse e verify flt_auth flt w authorization No_file startDate
           endDate nt new_id errs
         = (json 400 False ''No image file uploaded. Please select an image to upload.'', w)"
  using assms(1) crud_role_passes[OF assms(2), of e]
  by (simp add: route_postItem_def route_def processImageUpload_def)

lemma route_putItem_handler:
  assumes "protect e verify flt_auth (database w) authorization = Inr u"
    and "role u = ''admin'' \<or> role u = ''super_admin''"
  shows "route_putItem parse e verify flt_auth flt w authorization i c up startDate endDate nt errs
         = putItem parse e flt w u i None None (body_field c startDate) (body_field c endDate)
             (body_field c nt) errs"
  using assms(1) crud_role_passes[OF assms(2), of e]
  by (simp add: route_putItem_def route_def validateImageFile_def)


lemma ann_is_admin: "role ann_user = ''admin'' \<or> role ann_user = ''super_admin''"
  by (simp add: ann_user_def)

lemma ann_accepted_world: "protect production fixture_verify no_faults (database world1)
     (Some ''Bearer ann'') = Inr ann_user"
  by (simp add: world1_def ann_accepted)

lemma carol_item_found:
  "findOne_active (items (database world1)) ''222222222222222222222222'' = Some carol_item"
  by (simp add: world1_def db1_def findOne_active_def cast_carol_item bob_item_def carol_item_def)





text \<open>
  When the removal of the file throws, the request is answered alike, and the file that
  was stored for the request stays in the upload directory.
\<close>

lemma failed_unlink_leaves_file:
  assumes "protect e verify flt_auth (database w) authorization = Inr u"
    and "role u = ''admin'' \<or> role u = ''super_admin''"
    and "date_le (newDate parse endDate) (newDate parse startDate)"
    and "flt Fs_unlinkSync \<noteq> None"
  shows "route_postItem parse e verify flt_auth flt w authorization (Stored fn mt) startDate
           endDate nt new_id errs
         = (if errs \<noteq> [] then validation_failed errs
            else json 400 False ''End date must be after start date'',
            w\<lparr>uploads := insert fn (uploads w)\<rparr>)"
  unfolding route_postItem_stored[OF assms(1,2)] using assms(3,4)
  by (simp add: postItem_def Let_def cleanup_failed_unlink)

text \<open>
  A request without a file is rejected by the upload middleware, before the dates are
  read.
\<close>

lemma no_file_rejected:
  assumes "protect e verify flt_auth (database w) authorization = Inr u"
    and "role u = ''admin'' \<or> role u = ''super_admin''"
  shows "kind_of_status (status (fst (route_postItem parse e verify flt_auth flt w authorization
           No_file startDate endDate nt new_id errs))) = Some ValidationFailed
       \<and> snd (route_postItem parse e verify flt_auth flt w authorization
           No_file startDate endDate nt new_id errs) = w"
  by (simp add: route_postItem_no_file[OF assms] json_def kind_of_status_def)

section \<open>An update of one date of an item\<close>

text \<open>
  The validation of an update rejects every update object that holds a date range: the
  validator of \<^verbatim>\<open>dateRange.end\<close> cannot read the start.
\<close>

lemma update_valid_no_dateRange: "update_valid u \<Longrightarrow> upd_dateRange u = None"
  by (auto simp: update_valid_def dateRange_end_validator_def split: option.splits)

lemma image_update_none: "image_update e flt it None None w = (None, w)"
  by (simp add: image_update_def)

text \<open>
  No update that supplies a date is stored: whatever else the request holds, the response
  is not a success and the state is as before.
\<close>

lemma date_update_never_stored:
  assumes "protect e verify flt_auth (database w) authorization = Inr u"
    and "role u = ''admin'' \<or> role u = ''super_admin''"
    and "truthy (body_field c startDate) \<or> truthy (body_field c endDate)"
  shows "status (fst (route_putItem parse e verify flt_auth flt w authorization i c up startDate
           endDate nt errs)) \<in> {400, 404, 500}
       \<and> snd (route_putItem parse e verify flt_auth flt w authorization i c up startDate
           endDate nt errs) = w"
  unfolding route_putItem_handler[OF assms(1,2)] using assms(3)
  by (auto simp: putItem_def Let_def cleanup_none image_update_none validation_failed_def json_def
      dest: update_valid_no_dateRange split: option.splits)

lemma carol_item_start: "dateRange_start carol_item < 1706659200000"
  by (simp add: carol_item_def)

lemma route_putItem_ann:
  "route_putItem fixture_parse production fixture_verify no_faults no_faults world1
     (Some ''Bearer ann'') i c up startDate endDate nt errs
   = putItem fixture_parse production no_faults world1 ann_user i None None
       (body_field c startDate) (body_field c endDate) (body_field c nt) errs"
  by (rule route_putItem_handler[OF ann_accepted_world ann_is_admin])

text \<open>
  C5. The claim: an update that supplies exactly one of the two dates validates and stores
  the range of the supplied bound and the stored opposite bound. Carol's item runs from
  2024-01-01 to 2024-01-02. Ann, an admin, sends the end 2024-01-31 alone. The range that
  the handler checks is the stored start with the supplied end, and its end is after its
  start; but the validation of the update by the schema fails, the response has status
  500, and the item is stored as before.
\<close>

theorem partial_date_update_not_stored:
  "findOne_active (items (database world1)) ''222222222222222222222222'' = Some carol_item
   \<and> body_field Json None = None
   \<and> body_field Json (Some ''2024-01-31'') = Some ''2024-01-31''
   \<and> currentStart fixture_parse carol_item None = Some (dateRange_start carol_item)
   \<and> currentEnd fixture_parse carol_item (Some ''2024-01-31'') = Some 1706659200000
   \<and> dateRange_start carol_item < 1706659200000
   \<and> route_putItem fixture_parse production fixture_verify no_faults no_faults world1
        (Some ''Bearer ann'') ''222222222222222222222222'' Json No_file None (Some ''2024-01-31'')
        None []
      = (json 500 False ''Server error while updating item'', world1)"
proof -
  have 1: "currentStart fixture_parse carol_item None = Some (dateRange_start carol_item)"
    by (simp add: currentStart_def truthy_def)
  have 2: "currentEnd fixture_parse carol_item (Some ''2024-01-31'') = Some 1706659200000"
    by (simp add: currentEnd_def truthy_def newDate_def fixture_parse_def utc_midnight_def
        days_from_civil_def)
  have 3: "body_field Json None = None" "body_field Json (Some ''2024-01-31'') = Some ''2024-01-31''"
    by (simp_all add: body_field_def)
  have 4: "putItem fixture_parse production no_faults world1 ann_user ''222222222222222222222222''
             None None None (Some ''2024-01-31'') None []
           = (json 500 False ''Server error while updating item'', world1)"
    using carol_item_start
    by (simp add: putItem_def no_faults_def cast_carol_item carol_item_found 1 2 date_le_def
        truthy_def Let_def image_update_none update_valid_def dateRange_end_validator_def
        cleanup_none)
  show ?thesis
    unfolding route_putItem_ann 3 by (intro conjI carol_item_found 1 2 carol_item_start 4 refl)
qed

text \<open>
  An update that supplies the start alone is rejected when the stored end is not after
  it: the check of the handler is on the range of the supplied and the stored bounds.
\<close>

lemma start_after_stored_end_rejected:
  "route_putItem fixture_parse production fixture_verify no_faults no_faults world1
     (Some ''Bearer ann'') ''222222222222222222222222'' Json No_file (Some ''2024-01-31'') None
     None []
   = (json 400 False ''End date must be after start date'', world1)"
  unfolding route_putItem_ann
  by (simp add: body_field_def putItem_def no_faults_def cast_carol_item carol_item_found
      currentStart_def currentEnd_def date_le_def truthy_def newDate_def fixture_parse_def
      utc_midnight_def days_from_civil_def carol_item_def cleanup_none)

text \<open>
  The dates of a multipart form do not reach the handler: an update with such a body and
  an end before the start is answered as an update that supplies nothing, and no file is
  stored.
\<close>

lemma multipart_update_reads_no_dates:
  "route_putItem fixture_parse production fixture_verify no_faults no_faults world1
     (Some ''Bearer ann'') ''222222222222222222222222'' Multipart
     (Stored ''image-c.png'' ''image/png'') (Some ''2024-01-01'') (Some ''2023-12-31'') None []
   = (json 200 True ''Item updated successfully'',
      world1\<lparr>database := db1\<lparr>items :=
        [bob_item, carol_item\<lparr>updatedBy := Some (ObjectId ''dddddddddddddddddddddddd'')\<rparr>]\<rparr>\<rparr>)"
  unfolding route_putItem_ann
  by (simp add: body_field_def putItem_def no_faults_def cast_carol_item findOne_active_def
      truthy_def Let_def image_update_none update_valid_def findByIdAndUpdate_def apply_update_def
      world1_def db1_def bob_item_def carol_item_def ann_user_def cleanup_none)

section \<open>The duration of an item\<close>

text \<open>The number of binary digits of a positive integer bounds it by powers of two.\<close>

lemma bits_bounds: "0 < x \<Longrightarrow> 2 ^ (bits x - 1) \<le> x \<and> x < 2 ^ bits x"
proof (induction x rule: bits.induct)
  case (1 x)
  show ?case
  proof (cases "x div 2 \<le> 0")
    case True
    with 1(2) have "x = 1" by linarith
    then show ?thesis by (simp add: bits.simps)
  next
    case False
    then have h: "0 < x div 2" by simp
    with 1 have ih: "2 ^ (bits (x div 2) - 1) \<le> x div 2 \<and> x div 2 < 2 ^ bits (x div 2)" by simp
    have b: "bits x = Suc (bits (x div 2))" using 1(2) by (subst bits.simps) simp
    have p: "0 < bits (x div 2)" using h by (subst bits.simps) simp
    then obtain k where k: "bits (x div 2) = Suc k" by (cases "bits (x div 2)") auto
    from ih show ?thesis unfolding b k by simp linarith
  qed
qed

lemma bits_le: "0 \<le> x \<Longrightarrow> x < 2 ^ n \<Longrightarrow> bits x \<le> n"
proof (cases "x = 0")
  case True
  then show ?thesis by (simp add: bits.simps)
next
  case False
  assume "0 \<le> x" "x < 2 ^ n"
  with False have "0 < x" by simp
  then have "(2::int) ^ (bits x - 1) \<le> x" using bits_bounds by blast
  with \<open>x < 2 ^ n\<close> have "(2::int) ^ (bits x - 1) < 2 ^ n" by linarith
  then have "bits x - 1 < n" by simp
  then show ?thesis by simp
qed

text \<open>An integer of at most 53 binary digits is a double.\<close>

lemma double_of_int_exact: "\<bar>x\<bar> < 2 ^ 53 \<Longrightarrow> double_of_int x = x"
  using bits_le[of "\<bar>x\<bar>" 53] by (simp add: double_of_int_def Let_def)

text \<open>Rounding to the nearest integer errs by at most one half, and not at all on an integer.\<close>

lemma round_half_even_error:
  assumes "0 < b"
  shows "\<bar>real_of_int (round_half_even a b) - real_of_int a / real_of_int b\<bar> \<le> 1 / 2"
proof -
  define q r where "q = a div b" and "r = a mod b"
  have a: "a = b * q + r" and r: "0 \<le> r" "r < b" using assms by (simp_all add: q_def r_def)
  have ab: "real_of_int a / real_of_int b = real_of_int q + real_of_int r / real_of_int b"
    using assms by (simp add: a field_simps)
  consider "2 * r < b" | "b < 2 * r" | "2 * r = b" by linarith
  then show ?thesis
  proof cases
    case 1
    then have "round_half_even a b = q" by (simp add: round_half_even_def Let_def q_def r_def)
    moreover have "real_of_int r / real_of_int b \<le> 1 / 2" using 1 assms by (simp add: field_simps)
    moreover have "0 \<le> real_of_int r / real_of_int b" using r assms by simp
    ultimately show ?thesis by (simp add: ab)
  next
    case 2
    then have "round_half_even a b = q + 1" by (simp add: round_half_even_def Let_def q_def r_def)
    moreover have "1 / 2 \<le> real_of_int r / real_of_int b" using 2 assms by (simp add: field_simps)
    moreover have "real_of_int r / real_of_int b \<le> 1" using r assms by (simp add: field_simps)
    ultimately show ?thesis by (simp add: ab)
  next
    case 3
    then have d: "round_half_even a b = q \<or> round_half_even a b = q + 1"
      by (simp add: round_half_even_def Let_def q_def r_def)
    have h: "real_of_int r / real_of_int b = 1 / 2" using 3 assms by (simp add: field_simps)
    have e: "real_of_int a / real_of_int b = real_of_int q + 1 / 2" unfolding ab h ..
    from d show ?thesis
    proof
      assume "round_half_even a b = q"
      then show ?thesis unfolding e by simp
    next
      assume "round_half_even a b = q + 1"
      then show ?thesis unfolding e by simp
    qed
  qed
qed

lemma round_half_even_exact: "0 < b \<Longrightarrow> round_half_even (b * k) b = k"
  by (simp add: round_half_even_def Let_def)

lemma bits_Suc: "0 < x \<Longrightarrow> \<exists>k. bits x = Suc k \<and> 2 ^ k \<le> x \<and> x < 2 * 2 ^ k"
proof -
  assume p: "0 < x"
  then have "0 < bits x" by (subst bits.simps) simp
  then obtain k where k: "bits x = Suc k" by (cases "bits x") auto
  with bits_bounds[OF p] show ?thesis by simp
qed

text \<open>The exponent of the quotient of two positive integers.\<close>

lemma floor_log2_bounds:
  assumes "0 < a" and "0 < b"
  shows "b * 2 ^ nat (floor_log2 a b) \<le> a * 2 ^ nat (- floor_log2 a b)
       \<and> a * 2 ^ nat (- floor_log2 a b) < 2 * (b * 2 ^ nat (floor_log2 a b))"
proof -
  obtain i where i: "bits a = Suc i" "2 ^ i \<le> a" "a < 2 * 2 ^ i" using bits_Suc[OF assms(1)] by blast
  obtain j where j: "bits b = Suc j" "2 ^ j \<le> b" "b < 2 * 2 ^ j" using bits_Suc[OF assms(2)] by blast
  have n: "int (bits a) - int (bits b) = int i - int j" by (simp add: i j)
  show ?thesis
  proof (cases "j \<le> i")
    case True
    define d where "d = i - j"
    have id: "i = j + d" using True by (simp add: d_def)
    have nd: "int i - int j = int d" by (simp add: id)
    have pw: "(2::int) ^ i = 2 ^ j * 2 ^ d" by (simp add: id power_add)
    have D: "(0::int) < 2 ^ d" by simp
    show ?thesis
    proof (cases "b * 2 ^ d \<le> a")
      case t: True
      then have l: "floor_log2 a b = int d" by (simp add: floor_log2_def n nd)
      have "a < 2 * (2 ^ j * 2 ^ d)" using i(3) pw by simp
      also have "\<dots> \<le> 2 * (b * 2 ^ d)" using j(2) D by (simp add: mult_right_mono)
      finally show ?thesis using t by (simp add: l)
    next
      case f: False
      then have l: "floor_log2 a b = int d - 1" by (simp add: floor_log2_def n nd)
      show ?thesis
      proof (cases d)
        case 0
        then have "i = j" using id by simp
        then have "b < 2 * a" using i(2) j(3) by simp
        moreover have "a < b" using f 0 by simp
        ultimately show ?thesis by (simp add: l 0)
      next
        case (Suc d')
        have "b * 2 ^ d' < (2 * 2 ^ j) * 2 ^ d'" using j(3) by (simp add: mult_strict_right_mono)
        also have "\<dots> = 2 ^ i" by (simp add: pw Suc)
        finally have 1: "b * 2 ^ d' \<le> a" using i(2) by simp
        have 2: "a < 2 * (b * 2 ^ d')" using f by (simp add: Suc mult.commute mult.left_commute)
        have "nat (int d - 1) = d'" "nat (- (int d - 1)) = 0" by (simp_all add: Suc)
        then show ?thesis using 1 2 by (simp add: l)
      qed
    qed
  next
    case False
    define d where "d = j - i"
    have jd: "j = i + d" and dpos: "0 < d" using False by (simp_all add: d_def)
    have nd: "int i - int j = - int d" by (simp add: jd)
    have pw: "(2::int) ^ j = 2 ^ i * 2 ^ d" by (simp add: jd power_add)
    have D: "(0::int) < 2 ^ d" by simp
    show ?thesis
    proof (cases "b \<le> a * 2 ^ d")
      case t: True
      then have l: "floor_log2 a b = - int d" using dpos by (simp add: floor_log2_def n nd)
      have "a * 2 ^ d < (2 * 2 ^ i) * 2 ^ d" using i(3) by (simp add: mult_strict_right_mono)
      also have "\<dots> = 2 * 2 ^ j" by (simp add: pw)
      also have "\<dots> \<le> 2 * b" using j(2) by simp
      finally show ?thesis using t dpos by (simp add: l)
    next
      case f: False
      then have l: "floor_log2 a b = - int d - 1" using dpos by (simp add: floor_log2_def n nd)
      have e: "nat (- (- int d - 1)) = Suc d" "nat (- int d - 1) = 0" "nat (1 + int d) = Suc d"
        by simp_all
      have "b < 2 * 2 ^ j" by (rule j(3))
      also have "\<dots> = 2 * (2 ^ i * 2 ^ d)" by (simp add: pw)
      also have "\<dots> \<le> 2 * (a * 2 ^ d)" using i(2) D by (simp add: mult_right_mono)
      finally have 1: "b \<le> a * 2 ^ Suc d" by simp
      have 2: "a * 2 ^ Suc d < 2 * b" using f by simp
      show ?thesis using 1 2 by (simp add: l e del: power_Suc)
    qed
  qed
qed

text \<open>
  The rounded quotient of a natural number below \<open>2 ^ 53\<close> by a positive integer has the
  ceiling of the exact quotient: the error of the rounding is less than the distance
  \<open>1 / b\<close> of a quotient that is no integer from the integers, and a quotient that is an
  integer is not rounded.
\<close>

lemma double_quotient_ceiling:
  assumes a: "0 \<le> a" "a < 2 ^ 53" and b: "0 < b"
  shows "\<lceil>double_quotient a b\<rceil> = \<lceil>real_of_int a / real_of_int b\<rceil>"
proof (cases "a = 0")
  case True
  then show ?thesis by (simp add: double_quotient_def)
next
  case False
  with a have apos: "0 < a" by simp
  define l where "l = floor_log2 a b"
  define down where "down = nat (52 - l)"
  have lb: "b * 2 ^ nat l \<le> a * 2 ^ nat (- l)"
    using floor_log2_bounds[OF apos b] by (simp add: l_def)
  have l52: "l \<le> 52"
  proof (rule ccontr)
    assume "\<not> l \<le> 52"
    then have l53: "53 \<le> nat l" and z: "nat (- l) = 0" by simp_all
    have "(2::int) ^ 53 \<le> 2 ^ nat l" by (rule power_increasing[OF l53]) simp
    also have "\<dots> \<le> b * 2 ^ nat l" using b by (simp add: mult_le_cancel_right1)
    also have "\<dots> \<le> a" using lb z by simp
    finally show False using a(2) by simp
  qed
  then have up: "nat (l - 52) = 0" by simp
  have pw: "(2::int) ^ down * 2 ^ nat l = 2 ^ 52 * 2 ^ nat (- l)"
  proof -
    have "down + nat l = 52 + nat (- l)" using l52 by (simp add: down_def)
    then show ?thesis by (metis power_add)
  qed
  have bd: "b < 2 * 2 ^ down"
  proof -
    have "b * 2 ^ nat l \<le> a * 2 ^ nat (- l)" by (rule lb)
    also have "\<dots> < 2 ^ 53 * 2 ^ nat (- l)" using a(2) by (simp add: mult_strict_right_mono)
    also have "\<dots> = (2 * 2 ^ down) * 2 ^ nat l" using pw by simp
    finally show ?thesis by (simp add: mult_less_cancel_right)
  qed
  define m where "m = round_half_even (a * 2 ^ down) b"
  define v where "v = real_of_int m / 2 ^ down"
  have dq: "double_quotient a b = v"
    using False by (simp add: double_quotient_def Let_def l_def[symmetric] up down_def[symmetric]
        m_def v_def)
  define c where "c = \<lceil>real_of_int a / real_of_int b\<rceil>"
  have "\<lceil>v\<rceil> = c"
  proof (cases "b dvd a")
    case True
    then obtain k where k: "a = b * k" by (auto simp: dvd_def)
    have "m = k * 2 ^ down"
      unfolding m_def k using round_half_even_exact[OF b, of "k * 2 ^ down"] by (simp add: mult.assoc)
    then have "v = real_of_int k" by (simp add: v_def)
    moreover have "real_of_int a / real_of_int b = real_of_int k" using b by (simp add: k)
    ultimately show ?thesis by (simp add: c_def)
  next
    case False
    have e: "\<bar>real_of_int m - real_of_int (a * 2 ^ down) / real_of_int b\<bar> \<le> 1 / 2"
      unfolding m_def by (rule round_half_even_error[OF b])
    have D: "(0::real) < 2 ^ down" by simp
    have eq: "v - real_of_int a / real_of_int b
          = (real_of_int m - real_of_int (a * 2 ^ down) / real_of_int b) / 2 ^ down"
      by (simp add: v_def diff_divide_distrib)
    have "\<bar>v - real_of_int a / real_of_int b\<bar>
          = \<bar>real_of_int m - real_of_int (a * 2 ^ down) / real_of_int b\<bar> / 2 ^ down"
      unfolding eq abs_divide by simp
    also have "\<dots> \<le> (1 / 2) / 2 ^ down" by (rule divide_right_mono[OF e]) simp
    also have "\<dots> < 1 / real_of_int b"
    proof -
      have "real_of_int b < real_of_int (2 * 2 ^ down)" using bd by (simp only: of_int_less_iff)
      then show ?thesis using b by (simp add: field_simps)
    qed
    finally have err: "\<bar>v - real_of_int a / real_of_int b\<bar> < 1 / real_of_int b" .
    have c1: "real_of_int a / real_of_int b \<le> real_of_int c" by (simp add: c_def)
    have c2: "real_of_int c - 1 < real_of_int a / real_of_int b" by (simp add: c_def) linarith
    have "a \<noteq> c * b" using False by (auto simp: dvd_def)
    moreover have "a \<le> c * b"
    proof -
      have "real_of_int a \<le> real_of_int c * real_of_int b" using c1 b by (simp add: pos_divide_le_eq)
      then have "real_of_int a \<le> real_of_int (c * b)" by simp
      then show ?thesis by (simp only: of_int_le_iff)
    qed
    ultimately have "a + 1 \<le> c * b" by simp
    then have "real_of_int (a + 1) \<le> real_of_int (c * b)" by (simp only: of_int_le_iff)
    then have "real_of_int a \<le> real_of_int c * real_of_int b - 1" by simp
    then have "real_of_int a / real_of_int b \<le> (real_of_int c * real_of_int b - 1) / real_of_int b"
      using b by (simp add: divide_right_mono)
    also have "\<dots> = real_of_int c - 1 / real_of_int b" using b by (simp add: diff_divide_distrib)
    finally have u: "real_of_int a / real_of_int b \<le> real_of_int c - 1 / real_of_int b" .
    have "(c - 1) * b < a"
    proof -
      have "(real_of_int c - 1) * real_of_int b < real_of_int a" using c2 b by (simp add: pos_less_divide_eq)
      then have "real_of_int ((c - 1) * b) < real_of_int a" by simp
      then show ?thesis by (simp only: of_int_less_iff)
    qed
    then have "(c - 1) * b + 1 \<le> a" by simp
    then have "real_of_int ((c - 1) * b + 1) \<le> real_of_int a" by (simp only: of_int_le_iff)
    then have "(real_of_int c - 1) * real_of_int b + 1 \<le> real_of_int a" by simp
    then have "((real_of_int c - 1) * real_of_int b + 1) / real_of_int b \<le> real_of_int a / real_of_int b"
      using b by (simp add: divide_right_mono)
    moreover have "((real_of_int c - 1) * real_of_int b + 1) / real_of_int b
        = real_of_int c - 1 + 1 / real_of_int b" using b by (simp add: add_divide_distrib)
    ultimately have w: "real_of_int c - 1 + 1 / real_of_int b \<le> real_of_int a / real_of_int b"
      by simp
    from err u w have "real_of_int c - 1 < v" "v \<le> real_of_int c" by linarith+
    then show ?thesis by (intro ceiling_unique) simp_all
  qed
  then show ?thesis by (simp add: dq c_def)
qed

lemma durationDays_exact:
  assumes "\<bar>dateRange_end it - dateRange_start it\<bar> < 2 ^ 53"
  shows "durationDays it = \<lceil>real_of_int \<bar>dateRange_end it - dateRange_start it\<bar> / 86400000\<rceil>"
proof -
  have d: "double_of_int (dateRange_end it - dateRange_start it)
           = dateRange_end it - dateRange_start it"
    using assms by (rule double_of_int_exact)
  have "\<lceil>double_quotient \<bar>dateRange_end it - dateRange_start it\<bar> 86400000\<rceil>
        = \<lceil>real_of_int \<bar>dateRange_end it - dateRange_start it\<bar> / real_of_int 86400000\<rceil>"
    using assms by (intro double_quotient_ceiling) simp_all
  then show ?thesis by (simp add: durationDays_def d)
qed

lemma route_postItem_ann:
  "route_postItem fixture_parse production fixture_verify no_faults no_faults world1
     (Some ''Bearer ann'') (Stored fn mt) startDate endDate nt new_id errs
   = postItem fixture_parse production no_faults (world1\<lparr>uploads := insert fn (uploads world1)\<rparr>)
       ann_user (Some fn) (Some \<lparr>mimetype = mt, buffer_base64 = None\<rparr>) startDate endDate nt
       new_id errs"
  by (rule route_postItem_stored[OF ann_accepted_world ann_is_admin])

text \<open>Ann, an admin, creates an item from 2024-01-01 to 2024-01-31 with an image.\<close>

lemma spring_sale_created:
  "route_postItem fixture_parse production fixture_verify no_faults no_faults world1
     (Some ''Bearer ann'') (Stored ''image-c.png'' ''image/png'') (Some ''2024-01-01'')
     (Some ''2024-01-31'') (Some ''Spring sale'') (ObjectId ''333333333333333333333333'') []
   = (json 201 True ''Item created successfully'',
      \<lparr>database = db1\<lparr>items := items db1 @
         [\<lparr>item_id = ObjectId ''333333333333333333333333'', item_image = ''image-c.png'',
           dateRange_start = 1704067200000, dateRange_end = 1706659200000,
           item_note = ''Spring sale'', createdBy = ObjectId ''dddddddddddddddddddddddd'',
           updatedBy = None, item_isActive = True\<rparr>]\<rparr>,
       uploads = {''image-a.png'', ''image-b.png'', ''image-c.png''}\<rparr>)"
  unfolding route_postItem_ann
  by (auto simp: postItem_def Let_def fixture_parse_def utc_midnight_def days_from_civil_def
      newDate_def date_le_def production_def no_faults_def truthy_def item_schema_valid_def
      dateRange_end_validator_def trim_def isspace_def world1_def ann_user_def)

text \<open>
  C9. The duration in days of an item whose dates are less than \<open>2 ^ 53\<close> milliseconds
  apart, as are any two dates with years of four digits, is the ceiling of the absolute
  difference of its dates, divided by one day: the least number of days that covers the
  difference. An item created by an admin with the start 2024-01-01 and the end 2024-01-31
  has the duration 30.
\<close>

theorem durationDays_is_ceiling:
  assumes "\<bar>dateRange_end it - dateRange_start it\<bar> < 2 ^ 53"
  shows "durationDays it = \<lceil>real_of_int \<bar>dateRange_end it - dateRange_start it\<bar> / 86400000\<rceil>
       \<and> \<bar>dateRange_end it - dateRange_start it\<bar> \<le> 86400000 * durationDays it
       \<and> 86400000 * (durationDays it - 1) < \<bar>dateRange_end it - dateRange_start it\<bar>
       \<and> status (fst (route_postItem fixture_parse production fixture_verify no_faults no_faults
            world1 (Some ''Bearer ann'') (Stored ''image-c.png'' ''image/png'') (Some ''2024-01-01'')
            (Some ''2024-01-31'') (Some ''Spring sale'') (ObjectId ''333333333333333333333333'')
            [])) = 201
       \<and> durationDays (last (items (database (snd (route_postItem fixture_parse production
            fixture_verify no_faults no_faults world1 (Some ''Bearer ann'')
            (Stored ''image-c.png'' ''image/png'') (Some ''2024-01-01'') (Some ''2024-01-31'')
            (Some ''Spring sale'') (ObjectId ''333333333333333333333333'') []))))) = 30"
proof (intro conjI)
  define x where "x = \<bar>dateRange_end it - dateRange_start it\<bar>"
  have d: "durationDays it = \<lceil>real_of_int x / 86400000\<rceil>"
    unfolding x_def using assms by (rule durationDays_exact)
  then show "durationDays it = \<lceil>real_of_int \<bar>dateRange_end it - dateRange_start it\<bar> / 86400000\<rceil>"
    by (simp add: x_def)
  have "real_of_int x / 86400000 \<le> real_of_int (durationDays it)"
    unfolding d by (rule le_of_int_ceiling)
  then have "real_of_int x \<le> real_of_int (86400000 * durationDays it)" by (simp add: field_simps)
  then show "\<bar>dateRange_end it - dateRange_start it\<bar> \<le> 86400000 * durationDays it"
    unfolding x_def by linarith
  have "real_of_int (durationDays it) - 1 < real_of_int x / 86400000"
    unfolding d by linarith
  then have "real_of_int (86400000 * (durationDays it - 1)) < real_of_int x" by (simp add: field_simps)
  then show "86400000 * (durationDays it - 1) < \<bar>dateRange_end it - dateRange_start it\<bar>"
    unfolding x_def by linarith
  show "status (fst (route_postItem fixture_parse production fixture_verify no_faults no_faults
            world1 (Some ''Bearer ann'') (Stored ''image-c.png'' ''image/png'') (Some ''2024-01-01'')
            (Some ''2024-01-31'') (Some ''Spring sale'') (ObjectId ''333333333333333333333333'')
            [])) = 201"
    by (simp add: spring_sale_created json_def)
  show "durationDays (last (items (database (snd (route_postItem fixture_parse production
            fixture_verify no_faults no_faults world1 (Some ''Bearer ann'')
            (Stored ''image-c.png'' ''image/png'') (Some ''2024-01-01'') (Some ''2024-01-31'')
            (Some ''Spring sale'') (ObjectId ''333333333333333333333333'') []))))) = 30"
    unfolding spring_sale_created by (subst durationDays_exact) simp_all
qed

theorem durationDays_is_ceiling_witness:
  "\<bar>dateRange_end bob_item - dateRange_start bob_item\<bar> < 2 ^ 53
   \<and> \<bar>dateRange_end bob_item - dateRange_start bob_item\<bar> = 30 * 86400000
   \<and> durationDays bob_item = 30"
proof -
  have x: "\<bar>dateRange_end bob_item - dateRange_start bob_item\<bar> = 30 * 86400000"
    by (simp add: bob_item_def)
  have b: "\<bar>dateRange_end bob_item - dateRange_start bob_item\<bar> < 2 ^ 53"
    unfolding x by simp
  show ?thesis
    using durationDays_is_ceiling[of bob_item, OF b] b by (simp add: x)
qed

text \<open>
  The claim is for every item. The dates of the item \<open>long_item\<close> are valid dates, at most
  8640000000000000 milliseconds from the epoch. Their difference has 54 binary digits and
  is rounded to an even number, a multiple of a day, and the duration is one day less than
  the ceiling of the exact quotient.
\<close>

theorem durationDays_not_ceiling:
  "\<bar>dateRange_start long_item\<bar> \<le> 8640000000000000
   \<and> \<bar>dateRange_end long_item\<bar> \<le> 8640000000000000
   \<and> dateRange_end long_item - dateRange_start long_item = 12960000000000001
   \<and> double_of_int 12960000000000001 = 12960000000000000
   \<and> durationDays long_item = 150000000
   \<and> \<lceil>real_of_int \<bar>dateRange_end long_item - dateRange_start long_item\<bar> / 86400000\<rceil> = 150000001"
proof (intro conjI)
  show "\<bar>dateRange_start long_item\<bar> \<le> 8640000000000000"
    and "\<bar>dateRange_end long_item\<bar> \<le> 8640000000000000"
    and "dateRange_end long_item - dateRange_start long_item = 12960000000000001"
    and "\<lceil>real_of_int \<bar>dateRange_end long_item - dateRange_start long_item\<bar> / 86400000\<rceil> = 150000001"
    by (simp_all add: long_item_def)
  show "double_of_int 12960000000000001 = 12960000000000000" by code_simp
  show "durationDays long_item = 150000000" by code_simp
qed

section \<open>The registration\<close>

lemma lookahead_exists: "lookahead cls s \<Longrightarrow> \<exists>c \<in> set s. cls c"
  by (induction s) (auto split: if_splits)

lemma weak_password_invalid:
  assumes "length (toString pw) < 6 \<or> (\<forall>c \<in> set (toString pw). \<not> lower c)
           \<or> (\<forall>c \<in> set (toString pw). \<not> upper c) \<or> (\<forall>c \<in> set (toString pw). \<not> digit c)"
  shows "validate_password pw \<noteq> []"
  using assms lookahead_exists[of lower "toString pw"] lookahead_exists[of upper "toString pw"]
    lookahead_exists[of digit "toString pw"]
  by (auto simp: validate_password_def password_pattern_def Let_def)

lemma register_invalid:
  assumes "register_validation lib n m pw \<noteq> []"
  shows "register lib e flt d n m pw i
         = (sendErrorResponse_route 400 ''Validation failed'' (Some (register_validation lib n m pw)), d)"
  using assms by (simp add: register_def Let_def)

text \<open>
  C10. A registration whose password is shorter than 6 characters, or has no lowercase
  letter, no uppercase letter or no digit, fails with status 400, the kind of a failed
  validation, and stores no user. A registration that passes the validation and whose
  e-mail address is already registered fails with status 400 as well, with the message
  \<^verbatim>\<open>User already exists with this email\<close>, and stores no user.
\<close>

theorem register_rejections:
  "(length (toString pw) < 6 \<or> (\<forall>c \<in> set (toString pw). \<not> lower c)
      \<or> (\<forall>c \<in> set (toString pw). \<not> upper c) \<or> (\<forall>c \<in> set (toString pw). \<not> digit c)
     \<longrightarrow> status (fst (register lib e flt d n m pw i)) = 400
         \<and> kind_of_status (status (fst (register lib e flt d n m pw i))) = Some ValidationFailed
         \<and> snd (register lib e flt d n m pw i) = d)
   \<and> (register_validation lib n m pw = [] \<and> flt User_findOne = None
       \<and> findOne_email (users d) (normalizeEmail lib (toString m)) = Some u
     \<longrightarrow> status (fst (register lib e flt d n m pw i)) = 400
         \<and> snd (register lib e flt d n m pw i) = d
         \<and> (normalizeEmail lib (toString m) \<noteq> [] \<longrightarrow>
              message (fst (register lib e flt d n m pw i)) = ''User already exists with this email''))"
proof (intro conjI impI)
  assume a: "length (toString pw) < 6 \<or> (\<forall>c \<in> set (toString pw). \<not> lower c)
      \<or> (\<forall>c \<in> set (toString pw). \<not> upper c) \<or> (\<forall>c \<in> set (toString pw). \<not> digit c)"
  then have "register_validation lib n m pw \<noteq> []"
    using weak_password_invalid[OF a] by (simp add: register_validation_def)
  then have r: "register lib e flt d n m pw i
         = (sendErrorResponse_route 400 ''Validation failed'' (Some (register_validation lib n m pw)), d)"
    by (rule register_invalid)
  show "status (fst (register lib e flt d n m pw i)) = 400"
    by (simp add: r sendErrorResponse_route_def json_def)
  then show "kind_of_status (status (fst (register lib e flt d n m pw i))) = Some ValidationFailed"
    by (simp add: kind_of_status_def)
  show "snd (register lib e flt d n m pw i) = d" by (simp add: r)
next
  assume b: "register_validation lib n m pw = [] \<and> flt User_findOne = None
       \<and> findOne_email (users d) (normalizeEmail lib (toString m)) = Some u"
  show "status (fst (register lib e flt d n m pw i)) = 400"
    using b by (simp add: register_def Let_def sendErrorResponse_route_def json_def)
  show "snd (register lib e flt d n m pw i) = d"
    using b by (simp add: register_def Let_def)
  assume c: "normalizeEmail lib (toString m) \<noteq> []"
  have "trim (toString n) \<noteq> []" "toString pw \<noteq> []"
    using b by (auto simp: register_validation_def validate_name_def validate_password_def Let_def
        split: if_splits)
  then show "message (fst (register lib e flt d n m pw i)) = ''User already exists with this email''"
    using b c by (simp add: register_def Let_def sendErrorResponse_route_def json_def)
qed

lemma bob_registered:
  "findOne_email (users db0) (normalizeEmail fixture_library (toString (Some ''bob@example.com'')))
   = Some bob_user"
  by (simp add: db0_def root_user_def bob_user_def carol_user_def findOne_email_def
      fixture_library_def toLowerCase_def toString_def)

lemma registration_valid:
  "register_validation fixture_library (Some ''Dan'') (Some ''bob@example.com'') (Some ''Passw0rd'') = []"
  by (simp add: fixture_library_def register_validation_def validate_name_def validate_email_def
      validate_password_def password_pattern_def toString_def trim_def isspace_def lower_def
      upper_def digit_def line_terminator_def)

text \<open>
  The password \<^verbatim>\<open>password\<close> has no uppercase letter: the registration is rejected. A
  registration with a valid password and Bob's address is rejected as well.
\<close>

theorem register_rejections_witness:
  "list_all (\<lambda>c. \<not> upper c) (toString (Some ''password''))
   \<and> status (fst (register fixture_library production no_faults db0 (Some ''Dan'')
        (Some ''dan@example.com'') (Some ''password'') (ObjectId ''eeeeeeeeeeeeeeeeeeeeeeee''))) = 400
   \<and> snd (register fixture_library production no_faults db0 (Some ''Dan'')
        (Some ''dan@example.com'') (Some ''password'') (ObjectId ''eeeeeeeeeeeeeeeeeeeeeeee'')) = db0
   \<and> register_validation fixture_library (Some ''Dan'') (Some ''bob@example.com'') (Some ''Passw0rd'') = []
   \<and> no_faults User_findOne = None
   \<and> findOne_email (users db0) (normalizeEmail fixture_library (toString (Some ''bob@example.com'')))
     = Some bob_user
   \<and> status (fst (register fixture_library production no_faults db0 (Some ''Dan'')
        (Some ''bob@example.com'') (Some ''Passw0rd'') (ObjectId ''eeeeeeeeeeeeeeeeeeeeeeee''))) = 400
   \<and> snd (register fixture_library production no_faults db0 (Some ''Dan'')
        (Some ''bob@example.com'') (Some ''Passw0rd'') (ObjectId ''eeeeeeeeeeeeeeeeeeeeeeee'')) = db0"
proof -
  have p: "list_all (\<lambda>c. \<not> upper c) (toString (Some ''password''))"
    by (simp add: toString_def upper_def)
  then have q: "\<forall>c \<in> set (toString (Some ''password'')). \<not> upper c"
    by (simp only: list_all_iff)
  have f: "no_faults User_findOne = None" by (simp add: no_faults_def)
  have 1: "status (fst (register fixture_library production no_faults db0 (Some ''Dan'')
        (Some ''dan@example.com'') (Some ''password'') (ObjectId ''eeeeeeeeeeeeeeeeeeeeeeee''))) = 400
   \<and> snd (register fixture_library production no_faults db0 (Some ''Dan'')
        (Some ''dan@example.com'') (Some ''password'') (ObjectId ''eeeeeeeeeeeeeeeeeeeeeeee'')) = db0"
    using register_rejections[where pw = "Some ''password''" and lib = fixture_library
      and e = production and flt = no_faults and d = db0 and n = "Some ''Dan''"
      and m = "Some ''dan@example.com''" and i = "ObjectId ''eeeeeeeeeeeeeeeeeeeeeeee''"] q
    by blast
  have 2: "status (fst (register fixture_library production no_faults db0 (Some ''Dan'')
        (Some ''bob@example.com'') (Some ''Passw0rd'') (ObjectId ''eeeeeeeeeeeeeeeeeeeeeeee''))) = 400
   \<and> snd (register fixture_library production no_faults db0 (Some ''Dan'')
        (Some ''bob@example.com'') (Some ''Passw0rd'') (ObjectId ''eeeeeeeeeeeeeeeeeeeeeeee'')) = db0"
    using register_rejections[where pw = "Some ''Passw0rd''" and lib = fixture_library
      and e = production and flt = no_faults and d = db0 and n = "Some ''Dan''"
      and m = "Some ''bob@example.com''" and i = "ObjectId ''eeeeeeeeeeeeeeeeeeeeeeee''" and u = bob_user]
      registration_valid f bob_registered
    by blast
  from p 1 registration_valid f bob_registered 2 show ?thesis by (intro conjI) simp_all
qed

text \<open>
  The claim asks for the kind Conflict when the e-mail address is already registered. The
  response has the status of a failed validation.
\<close>

theorem duplicate_email_not_conflict:
  "findOne_email (users db0) (normalizeEmail fixture_library ''bob@example.com'') = Some bob_user
   \<and> register_validation fixture_library (Some ''Dan'') (Some ''bob@example.com'') (Some ''Passw0rd'') = []
   \<and> fst (register fixture_library production no_faults db0 (Some ''Dan'') (Some ''bob@example.com'')
        (Some ''Passw0rd'') (ObjectId ''eeeeeeeeeeeeeeeeeeeeeeee''))
     = json 400 False ''User already exists with this email''
   \<and> kind_of_status (status (fst (register fixture_library production no_faults db0 (Some ''Dan'')
        (Some ''bob@example.com'') (Some ''Passw0rd'') (ObjectId ''eeeeeeeeeeeeeeeeeeeeeeee'')))) \<noteq> Some Conflict"
  by (simp add: register_def Let_def db0_def root_user_def bob_user_def carol_user_def
      findOne_email_def fixture_library_def toLowerCase_def register_validation_def validate_name_def
      validate_email_def validate_password_def password_pattern_def toString_def trim_def isspace_def
      lower_def upper_def digit_def line_terminator_def no_faults_def sendErrorResponse_route_def
      json_def kind_of_status_def)

end
